theory Spec2Isabelle
  imports Main "HOL-Library.Word" "HOL-Library.Sublist"
begin

section \<open>The in-memory store of db/memorystore.go\<close>

text \<open>
  \<^verbatim>\<open>MemoryStore\<close> keeps maps from identifiers to pointers. The objects pointed to
  (accounts, orders, certificates, revoked certificates) live outside the store and are
  shared with its callers, so the model has an explicit heap for each kind of object: a
  function from addresses to records. A pointer is the address of an object; a pointer
  field the source tests against \<^verbatim>\<open>nil\<close> is an \<open>option\<close>. No operation stores a
  pointer before reading a field through it, so the maps never hold \<^verbatim>\<open>nil\<close>.

  The store lock and the entity locks are taken and released around each operation. One
  operation runs at a time in this model, so a lock shows only where the source takes it
  again before releasing it (the deferred unlocks of \<^verbatim>\<open>GetOrdersByAccountID\<close>).

  Modelled are the operations on accounts by ID and by key, on orders, on certificates
  by ID, on external account keys and on the block list; the indices of authorizations
  and challenges are fields of the store that none of these operations touches.
\<close>

subsection \<open>Data model\<close>

type_synonym addr = nat

text \<open>
  The dynamic type of a \<^verbatim>\<open>crypto.PublicKey\<close>, as far as \<^verbatim>\<open>keyToID\<close> tells
  it apart: a \<^verbatim>\<open>*jose.JSONWebKey\<close> (\<open>None\<close> is the nil pointer, otherwise the
  \<^verbatim>\<open>Key\<close> field of the value pointed to), a \<^verbatim>\<open>jose.JSONWebKey\<close> value (its
  \<^verbatim>\<open>Key\<close> field), or anything else.
\<close>

datatype 'k PublicKey =
    JSONWebKeyPtr "'k PublicKey option"
  | JSONWebKey "'k PublicKey"
  | OtherKey 'k

text \<open>
  The entity types are declared in package \<^verbatim>\<open>core\<close>; the records have the fields the
  store reads or writes. \<open>Account_Key\<close> is a \<^verbatim>\<open>*jose.JSONWebKey\<close>: \<open>None\<close> is
  nil, \<open>Some k\<close> points to a key whose \<^verbatim>\<open>Key\<close> field is \<open>k\<close>.
\<close>

record 'k Account =
  Account_ID :: string
  Account_Key :: "'k PublicKey option"

record Order =
  Order_ID :: string
  Order_AccountID :: string
  Order_Status :: string
  Order_CertificateObject :: "addr option"
  Order_IsReplaced :: bool

record Certificate =
  Certificate_ID :: string
  Certificate_DER :: "8 word list"
  Certificate_SerialNumber :: int
  Certificate_ARIResponse :: string

record RevokedCertificate =
  RevokedCertificate_Certificate :: addr

record 'r MemoryStore =
  accountRand :: 'r
  accountsByID :: "string \<rightharpoonup> addr"
  accountsByKeyID :: "string \<rightharpoonup> addr"
  ordersByIssuedSerial :: "string \<rightharpoonup> addr"
  ordersByID :: "string \<rightharpoonup> addr"
  ordersByAccountID :: "string \<rightharpoonup> addr list"
  authorizationsByID :: "string \<rightharpoonup> addr"
  challengesByID :: "string \<rightharpoonup> addr"
  certificatesByID :: "string \<rightharpoonup> addr"
  revokedCertificatesByID :: "string \<rightharpoonup> addr"
  externalAccountKeysByID :: "string \<rightharpoonup> 8 word list"
  blockListByDomain :: "string list list"

text \<open>The heaps of shared objects, and the store \<open>m\<close> (the receiver of every method).\<close>

record ('k, 'r, 'o) state =
  Accounts :: "addr \<Rightarrow> 'k Account"
  Orders :: "addr \<Rightarrow> 'o Order_scheme"
  Certificates :: "addr \<Rightarrow> Certificate"
  RevokedCertificates :: "addr \<Rightarrow> RevokedCertificate"
  m :: "'r MemoryStore"

text \<open>
  What the store calls outside its own file: the standard library, and
  \<^verbatim>\<open>(*core.Order).GetStatus\<close>. An \<^verbatim>\<open>error\<close> of the library is its message.
  \<open>FormatInt\<close> is \<^verbatim>\<open>strconv.FormatInt(_, 16)\<close>, \<open>DecodeString\<close> is
  \<^verbatim>\<open>base64.RawURLEncoding.DecodeString\<close>, \<open>Int63\<close> draws from a
  \<^verbatim>\<open>*rand.Rand\<close> and returns its next state. \<open>GetStatus\<close> reads the order and,
  through it, what the store never looks at (its authorizations, the clock): the
  extension of the order record stands for that.
\<close>

record ('k, 'r, 'o) Library =
  MarshalPKIXPublicKey :: "'k \<Rightarrow> string + 8 word list"
  Sum256 :: "8 word list \<Rightarrow> 8 word list"
  EncodeToString :: "8 word list \<Rightarrow> string"
  Int63 :: "'r \<Rightarrow> int \<times> 'r"
  FormatInt :: "int \<Rightarrow> string"
  DecodeString :: "string \<Rightarrow> string + 8 word list"
  GetStatus :: "'o Order_scheme \<Rightarrow> string + string"

text \<open>
  The errors the store returns, one constructor for each message of the source, and the
  ways an operation ends without returning.
\<close>

datatype error =
    NilKeyError                   \<comment> \<open>cannot compute ID of nil key\<close>
  | LibraryError string           \<comment> \<open>an error of the library, passed on\<close>
  | AccountNilKey                 \<comment> \<open>account must not have a nil Key\<close>
  | AccountKeyExists              \<comment> \<open>account with key already exists\<close>
  | ExistingAccountError addr     \<comment> \<open>\<^verbatim>\<open>ExistingAccountError{MatchingAccount}\<close>\<close>
  | OrderEmptyID                  \<comment> \<open>order must have a non-empty ID to add to MemoryStore\<close>
  | OrderExists string            \<comment> \<open>order %q already exists\<close>
  | OrderNoCertificate            \<comment> \<open>order must have non-empty CertificateObject\<close>
  | OrderSerialNotFound           \<comment> \<open>could not find order resulting in the given certificate serial number\<close>
  | CertEmptyID                   \<comment> \<open>cert must have a non-empty ID to add to MemoryStore\<close>
  | CertExists string             \<comment> \<open>cert %q already exists\<close>
  | CertExistsRevoked string      \<comment> \<open>cert %q already exists (and is revoked)\<close>
  | ExternalKeyEmpty              \<comment> \<open>key ID and key must not be empty\<close>
  | ExternalKeyDecode string string  \<comment> \<open>failed to decode base64 URL encoded key %q: %w\<close>
  | ExternalKeyPresent string     \<comment> \<open>key ID %q is already present\<close>
  | DomainEmpty                   \<comment> \<open>domain name must not be empty\<close>

datatype fault =
    IndexOutOfRange nat nat       \<comment> \<open>runtime panic: index out of range [i] with length n\<close>
  | StatusPanic string            \<comment> \<open>\<^verbatim>\<open>panic(err)\<close> on the error of \<^verbatim>\<open>GetStatus\<close>\<close>
  | SelfDeadlock addr             \<comment> \<open>\<^verbatim>\<open>Lock\<close> on an order lock the same call still holds\<close>

subsection \<open>Domain block list\<close>

text \<open>
  \<^verbatim>\<open>strings.Split(name, ".")\<close>: the pieces between the dots, never an empty list.
  \<open>piece\<close> is the piece read so far.
\<close>

fun splitFrom :: "string \<Rightarrow> string \<Rightarrow> string list" where
  "splitFrom piece [] = [piece]"
| "splitFrom piece (c # cs) =
     (if c = CHR ''.'' then piece # splitFrom [] cs
      else splitFrom (piece @ [c]) cs)"

definition Split :: "string \<Rightarrow> string list" where
  "Split s = splitFrom [] s"

text \<open>
  The reversing loop
  \<^verbatim>\<open>for i, j := 0, len(domainParts)-1; i < j; i, j = i+1, j-1\<close>, swapping in place.
  It starts at \<open>j = length parts - 1\<close>, so both reads are in range whenever \<open>i < j\<close>.
\<close>

function reverseParts :: "nat \<Rightarrow> nat \<Rightarrow> string list \<Rightarrow> string list" where
  "reverseParts i j parts =
     (if i < j then reverseParts (i + 1) (j - 1) (parts[i := parts ! j, j := parts ! i])
      else parts)"
  by pat_completeness auto
termination
  by (relation "measure (\<lambda>(i, j, parts). j - i)") auto

declare reverseParts.simps [simp del]

definition reversedLabels :: "string \<Rightarrow> string list" where
  "reversedLabels name = reverseParts 0 (length (Split name) - 1) (Split name)"

definition AddBlockedDomain ::
  "string \<Rightarrow> ('k, 'r, 'o) state \<Rightarrow> (error + unit) \<times> ('k, 'r, 'o) state" where
  "AddBlockedDomain name s =
     (if length name = 0 then (Inl DomainEmpty, s)
      else (Inr (),
            s\<lparr>m := (m s)\<lparr>blockListByDomain :=
                 blockListByDomain (m s) @ [reversedLabels name]\<rparr>\<rparr>))"

text \<open>
  The inner loop \<^verbatim>\<open>for i := range blockedParts\<close> over the indices still to visit.
  \<^verbatim>\<open>blockedParts[i]\<close> is in range; \<^verbatim>\<open>domainParts[i]\<close> is read with no check
  of the length of \<^verbatim>\<open>domainParts\<close>, and Go panics when \<open>i\<close> is beyond it.
\<close>

fun isMatch :: "string list \<Rightarrow> string list \<Rightarrow> nat list \<Rightarrow> fault + bool" where
  "isMatch blockedParts domainParts [] = Inr True"
| "isMatch blockedParts domainParts (i # is) =
     (if length domainParts \<le> i then Inl (IndexOutOfRange i (length domainParts))
      else if blockedParts ! i \<noteq> domainParts ! i then Inr False
      else isMatch blockedParts domainParts is)"

text \<open>The outer loop \<^verbatim>\<open>for _, blockedParts := range m.blockListByDomain\<close>.\<close>

fun scanBlockList :: "string list list \<Rightarrow> string list \<Rightarrow> fault + bool" where
  "scanBlockList [] domainParts = Inr False"
| "scanBlockList (blockedParts # rest) domainParts =
     (case isMatch blockedParts domainParts [0..<length blockedParts] of
        Inl f \<Rightarrow> Inl f
      | Inr True \<Rightarrow> Inr True
      | Inr False \<Rightarrow> scanBlockList rest domainParts)"

definition IsDomainBlocked :: "string \<Rightarrow> ('k, 'r, 'o) state \<Rightarrow> fault + bool" where
  "IsDomainBlocked name s = scanBlockList (blockListByDomain (m s)) (reversedLabels name)"


subsection \<open>Construction\<close>

text \<open>
  \<^verbatim>\<open>NewMemoryStore\<close>: every map empty, the block list empty. The generator is seeded
  from the clock; the seed is the argument.
\<close>

definition NewMemoryStore :: "'r \<Rightarrow> 'r MemoryStore" where
  "NewMemoryStore seed =
     \<lparr>accountRand = seed,
      accountsByID = Map.empty,
      accountsByKeyID = Map.empty,
      ordersByIssuedSerial = Map.empty,
      ordersByID = Map.empty,
      ordersByAccountID = Map.empty,
      authorizationsByID = Map.empty,
      challengesByID = Map.empty,
      certificatesByID = Map.empty,
      revokedCertificatesByID = Map.empty,
      externalAccountKeysByID = Map.empty,
      blockListByDomain = []\<rparr>"

subsection \<open>Accounts\<close>

text \<open>
  \<^verbatim>\<open>keyToID\<close>: the type switch unwraps a \<^verbatim>\<open>JSONWebKey\<close>, by pointer or by value,
  and fails on a nil pointer; any other key is marshalled, digested and hex-encoded.
\<close>

fun keyToID :: "('k, 'r, 'o) Library \<Rightarrow> 'k PublicKey \<Rightarrow> error + string" where
  "keyToID lib (JSONWebKeyPtr None) = Inl NilKeyError"
| "keyToID lib (JSONWebKeyPtr (Some t)) = keyToID lib t"
| "keyToID lib (JSONWebKey t) = keyToID lib t"
| "keyToID lib (OtherKey key) =
     (case MarshalPKIXPublicKey lib key of
        Inl err \<Rightarrow> Inl (LibraryError err)
      | Inr keyDER \<Rightarrow> Inr (EncodeToString lib (Sum256 lib keyDER)))"

definition GetAccountByID :: "string \<Rightarrow> ('k, 'r, 'o) state \<Rightarrow> addr option" where
  "GetAccountByID id' s = accountsByID (m s) id'"

definition GetAccountByKey ::
  "('k, 'r, 'o) Library \<Rightarrow> 'k PublicKey \<Rightarrow> ('k, 'r, 'o) state \<Rightarrow> error + addr option" where
  "GetAccountByKey lib key s =
     (case keyToID lib key of
        Inl err \<Rightarrow> Inl err
      | Inr keyID \<Rightarrow> Inr (accountsByKeyID (m s) keyID))"

text \<open>
  The loop of \<^verbatim>\<open>AddAccount\<close> that draws an account ID until it finds one that is not
  in \<^verbatim>\<open>accountsByID\<close>. Nothing bounds it: it returns the ID with the state of the
  generator after the last draw, or never returns (\<open>None\<close>).
\<close>

partial_function (option) drawAccountID ::
  "('k, 'r, 'o) Library \<Rightarrow> (string \<rightharpoonup> addr) \<Rightarrow> 'r \<Rightarrow> (string \<times> 'r) option" where
  "drawAccountID lib byID rnd =
     (if byID (FormatInt lib (fst (Int63 lib rnd))) \<noteq> None
      then drawAccountID lib byID (snd (Int63 lib rnd))
      else Some (FormatInt lib (fst (Int63 lib rnd)), snd (Int63 lib rnd)))"

text \<open>The account ID of the draw after \<open>n\<close> earlier draws.\<close>

definition nthDraw :: "('k, 'r, 'o) Library \<Rightarrow> 'r \<Rightarrow> nat \<Rightarrow> string" where
  "nthDraw lib rnd n =
     FormatInt lib (fst (Int63 lib (((\<lambda>r. snd (Int63 lib r)) ^^ n) rnd)))"

text \<open>
  \<^verbatim>\<open>AddAccount\<close>. The ID is drawn before the key is looked up, so a call that fails
  on an existing key has advanced the generator. \<open>None\<close>: the ID loop does not return.
\<close>

definition AddAccount ::
  "('k, 'r, 'o) Library \<Rightarrow> addr \<Rightarrow> ('k, 'r, 'o) state \<Rightarrow>
   ((error + nat) \<times> ('k, 'r, 'o) state) option" where
  "AddAccount lib acct s =
     (case Account_Key (Accounts s acct) of
        None \<Rightarrow> Some (Inl AccountNilKey, s)
      | Some t \<Rightarrow>
         (case keyToID lib (JSONWebKeyPtr (Some t)) of
            Inl err \<Rightarrow> Some (Inl err, s)
          | Inr keyID \<Rightarrow>
             (case drawAccountID lib (accountsByID (m s)) (accountRand (m s)) of
                None \<Rightarrow> None
              | Some (acctID, rnd) \<Rightarrow>
                 (if accountsByKeyID (m s) keyID \<noteq> None
                  then Some (Inl AccountKeyExists, s\<lparr>m := (m s)\<lparr>accountRand := rnd\<rparr>\<rparr>)
                  else Some (Inr (card (dom ((accountsByID (m s))(acctID \<mapsto> acct)))),
                         s\<lparr>Accounts := (Accounts s)(acct := (Accounts s acct)\<lparr>Account_ID := acctID\<rparr>),
                           m := (m s)\<lparr>accountRand := rnd,
                                     accountsByID := (accountsByID (m s))(acctID \<mapsto> acct),
                                     accountsByKeyID := (accountsByKeyID (m s))(keyID \<mapsto> acct)\<rparr>\<rparr>)))))"

text \<open>
  \<^verbatim>\<open>ChangeAccountKey\<close>. The guard is on the presence of the new key ID in
  \<^verbatim>\<open>accountsByKeyID\<close>; the account found there is not compared with \<open>acct\<close>.
\<close>

definition ChangeAccountKey ::
  "('k, 'r, 'o) Library \<Rightarrow> addr \<Rightarrow> 'k PublicKey option \<Rightarrow> ('k, 'r, 'o) state \<Rightarrow>
   (error + unit) \<times> ('k, 'r, 'o) state" where
  "ChangeAccountKey lib acct newKey s =
     (case keyToID lib (JSONWebKeyPtr (Account_Key (Accounts s acct))) of
        Inl err \<Rightarrow> (Inl err, s)
      | Inr oldKeyID \<Rightarrow>
         (case keyToID lib (JSONWebKeyPtr newKey) of
            Inl err \<Rightarrow> (Inl err, s)
          | Inr newKeyID \<Rightarrow>
             (case accountsByKeyID (m s) newKeyID of
                Some otherAccount \<Rightarrow> (Inl (ExistingAccountError otherAccount), s)
              | None \<Rightarrow>
                 (Inr (),
                  s\<lparr>Accounts := (Accounts s)(acct := (Accounts s acct)\<lparr>Account_Key := newKey\<rparr>),
                    m := (m s)\<lparr>accountsByKeyID :=
                                ((accountsByKeyID (m s))(oldKeyID := None))(newKeyID \<mapsto> acct),
                              accountsByID :=
                                (accountsByID (m s))(Account_ID (Accounts s acct) \<mapsto> acct)\<rparr>\<rparr>))))"

subsection \<open>Orders\<close>

definition AddOrder ::
  "addr \<Rightarrow> ('k, 'r, 'o) state \<Rightarrow> (error + nat) \<times> ('k, 'r, 'o) state" where
  "AddOrder order s =
     (let orderID = Order_ID (Orders s order);
          accountID = Order_AccountID (Orders s order)
      in if length orderID = 0 then (Inl OrderEmptyID, s)
         else if ordersByID (m s) orderID \<noteq> None then (Inl (OrderExists orderID), s)
         else
           (Inr (card (dom ((ordersByID (m s))(orderID \<mapsto> order)))),
            s\<lparr>m := (m s)\<lparr>ordersByAccountID :=
                         (ordersByAccountID (m s))
                           (accountID \<mapsto>
                              (case ordersByAccountID (m s) accountID of
                                 None \<Rightarrow> []
                               | Some ordersOfAccount \<Rightarrow> ordersOfAccount) @ [order]),
                       ordersByID := (ordersByID (m s))(orderID \<mapsto> order)\<rparr>\<rparr>))"

definition AddOrderByIssuedSerial ::
  "addr \<Rightarrow> ('k, 'r, 'o) state \<Rightarrow> (error + unit) \<times> ('k, 'r, 'o) state" where
  "AddOrderByIssuedSerial order s =
     (case Order_CertificateObject (Orders s order) of
        None \<Rightarrow> (Inl OrderNoCertificate, s)
      | Some cert \<Rightarrow>
         (Inr (),
          s\<lparr>m := (m s)\<lparr>ordersByIssuedSerial :=
                       (ordersByIssuedSerial (m s))
                         (Certificate_ID (Certificates s cert) \<mapsto> order)\<rparr>\<rparr>))"

text \<open>
  \<^verbatim>\<open>GetOrderByID\<close> writes the recomputed status into the order it returns, and panics
  when \<^verbatim>\<open>GetStatus\<close> returns an error.
\<close>

definition GetOrderByID ::
  "('k, 'r, 'o) Library \<Rightarrow> string \<Rightarrow> ('k, 'r, 'o) state \<Rightarrow>
   (fault + addr option) \<times> ('k, 'r, 'o) state" where
  "GetOrderByID lib id' s =
     (case ordersByID (m s) id' of
        None \<Rightarrow> (Inr None, s)
      | Some order \<Rightarrow>
         (case GetStatus lib (Orders s order) of
            Inl err \<Rightarrow> (Inl (StatusPanic err), s)
          | Inr orderStatus \<Rightarrow>
             (Inr (Some order),
              s\<lparr>Orders := (Orders s)(order := (Orders s order)\<lparr>Order_Status := orderStatus\<rparr>)\<rparr>)))"

definition GetOrderByIssuedSerial :: "string \<Rightarrow> ('k, 'r, 'o) state \<Rightarrow> error + addr" where
  "GetOrderByIssuedSerial serial s =
     (case ordersByIssuedSerial (m s) serial of
        None \<Rightarrow> Inl OrderSerialNotFound
      | Some order \<Rightarrow> Inr order)"

text \<open>
  The loop of \<^verbatim>\<open>GetOrdersByAccountID\<close>. Each round locks its order and defers the
  unlock to the return of the function, so \<open>held\<close> are the order locks taken by the rounds
  before; locking one of them again never returns.
\<close>

fun refreshStatuses ::
  "('k, 'r, 'o) Library \<Rightarrow> addr list \<Rightarrow> addr list \<Rightarrow> ('k, 'r, 'o) state \<Rightarrow>
   (fault + unit) \<times> ('k, 'r, 'o) state" where
  "refreshStatuses lib [] held s = (Inr (), s)"
| "refreshStatuses lib (order # rest) held s =
     (case GetStatus lib (Orders s order) of
        Inl err \<Rightarrow> (Inl (StatusPanic err), s)
      | Inr orderStatus \<Rightarrow>
         (if order \<in> set held then (Inl (SelfDeadlock order), s)
          else refreshStatuses lib rest (order # held)
                 (s\<lparr>Orders := (Orders s)(order := (Orders s order)\<lparr>Order_Status := orderStatus\<rparr>)\<rparr>)))"

definition GetOrdersByAccountID ::
  "('k, 'r, 'o) Library \<Rightarrow> string \<Rightarrow> ('k, 'r, 'o) state \<Rightarrow>
   (fault + addr list option) \<times> ('k, 'r, 'o) state" where
  "GetOrdersByAccountID lib accountID s =
     (case ordersByAccountID (m s) accountID of
        None \<Rightarrow> (Inr None, s)
      | Some ordersOfAccount \<Rightarrow>
         (case refreshStatuses lib ordersOfAccount [] s of
            (Inl f, s') \<Rightarrow> (Inl f, s')
          | (Inr _, s') \<Rightarrow> (Inr (Some ordersOfAccount), s')))"

subsection \<open>Certificates\<close>

definition AddCertificate ::
  "addr \<Rightarrow> ('k, 'r, 'o) state \<Rightarrow> (error + nat) \<times> ('k, 'r, 'o) state" where
  "AddCertificate cert s =
     (let certID = Certificate_ID (Certificates s cert)
      in if length certID = 0 then (Inl CertEmptyID, s)
         else if certificatesByID (m s) certID \<noteq> None then (Inl (CertExists certID), s)
         else if revokedCertificatesByID (m s) certID \<noteq> None
              then (Inl (CertExistsRevoked certID), s)
         else
           (Inr (card (dom ((certificatesByID (m s))(certID \<mapsto> cert)))),
            s\<lparr>m := (m s)\<lparr>certificatesByID := (certificatesByID (m s))(certID \<mapsto> cert)\<rparr>\<rparr>))"

definition GetCertificateByID :: "string \<Rightarrow> ('k, 'r, 'o) state \<Rightarrow> addr option" where
  "GetCertificateByID id' s = certificatesByID (m s) id'"

text \<open>\<^verbatim>\<open>RevokeCertificate\<close> has no result and no check.\<close>

definition RevokeCertificate :: "addr \<Rightarrow> ('k, 'r, 'o) state \<Rightarrow> ('k, 'r, 'o) state" where
  "RevokeCertificate cert s =
     s\<lparr>m := (m s)\<lparr>revokedCertificatesByID :=
                  (revokedCertificatesByID (m s))
                    (Certificate_ID
                       (Certificates s (RevokedCertificate_Certificate (RevokedCertificates s cert)))
                     \<mapsto> cert)\<rparr>\<rparr>"

subsection \<open>External account keys\<close>

definition AddExternalAccountKeyByID ::
  "('k, 'r, 'o) Library \<Rightarrow> string \<Rightarrow> string \<Rightarrow> ('k, 'r, 'o) state \<Rightarrow>
   (error + unit) \<times> ('k, 'r, 'o) state" where
  "AddExternalAccountKeyByID lib keyID key s =
     (if length key = 0 \<or> length keyID = 0 then (Inl ExternalKeyEmpty, s)
      else
        (case DecodeString lib key of
           Inl err \<Rightarrow> (Inl (ExternalKeyDecode key err), s)
         | Inr keyDecoded \<Rightarrow>
            (if externalAccountKeysByID (m s) keyID \<noteq> None
             then (Inl (ExternalKeyPresent keyID), s)
             else (Inr (),
                   s\<lparr>m := (m s)\<lparr>externalAccountKeysByID :=
                                (externalAccountKeysByID (m s))(keyID \<mapsto> keyDecoded)\<rparr>\<rparr>))))"

text \<open>\<^verbatim>\<open>GetExtenalAccountKeyByID\<close> returns the key and whether it is present.\<close>

definition GetExtenalAccountKeyByID ::
  "string \<Rightarrow> ('k, 'r, 'o) state \<Rightarrow> 8 word list option" where
  "GetExtenalAccountKeyByID keyID s = externalAccountKeysByID (m s) keyID"

text \<open>A sequence of calls of \<^verbatim>\<open>AddExternalAccountKeyByID\<close>, whatever each one returns.\<close>

fun AddExternalAccountKeys ::
  "('k, 'r, 'o) Library \<Rightarrow> (string \<times> string) list \<Rightarrow> ('k, 'r, 'o) state \<Rightarrow> ('k, 'r, 'o) state" where
  "AddExternalAccountKeys lib [] s = s"
| "AddExternalAccountKeys lib ((keyID, key) # calls) s =
     AddExternalAccountKeys lib calls (snd (AddExternalAccountKeyByID lib keyID key s))"

subsection \<open>An instance of the library, and a state, for concrete runs\<close>

text \<open>
  The theorems hold for every library. Concrete runs need one: hexadecimal output as
  \<^verbatim>\<open>encoding/hex\<close> and \<^verbatim>\<open>strconv\<close> print it, unpadded base64url decoding, a
  generator that counts up from its seed, a key that is its own encoding, the identity
  in place of the digest, and a status function that reads its outcome from the part
  of the order the store does not look at.
\<close>

definition hextable :: string where
  "hextable = ''0123456789abcdef''"

definition hexEncode :: "8 word list \<Rightarrow> string" where
  "hexEncode src =
     concat (map (\<lambda>v. [hextable ! (unat v div 16), hextable ! (unat v mod 16)]) src)"

function hexDigits :: "nat \<Rightarrow> string" where
  "hexDigits n =
     (if n < 16 then [hextable ! n]
      else hexDigits (n div 16) @ [hextable ! (n mod 16)])"
  by pat_completeness auto
termination
  by (relation "measure (\<lambda>n. n)") auto

declare hexDigits.simps [simp del]

definition formatInt16 :: "int \<Rightarrow> string" where
  "formatInt16 i =
     (if i < 0 then CHR ''-'' # hexDigits (nat (- i)) else hexDigits (nat i))"

definition encodeURL :: string where
  "encodeURL = ''ABCDEFGHIJKLMNOPQRSTUVWXYZabcdefghijklmnopqrstuvwxyz0123456789-_''"

fun indexOf :: "char \<Rightarrow> string \<Rightarrow> nat option" where
  "indexOf c [] = None"
| "indexOf c (x # xs) = (if c = x then Some 0 else map_option Suc (indexOf c xs))"

fun sextets :: "string \<Rightarrow> nat list option" where
  "sextets [] = Some []"
| "sextets (c # cs) =
     (case indexOf c encodeURL of
        None \<Rightarrow> None
      | Some v \<Rightarrow> map_option ((#) v) (sextets cs))"

fun quanta :: "nat list \<Rightarrow> 8 word list option" where
  "quanta [] = Some []"
| "quanta [a] = None"
| "quanta [a, b] = Some [of_nat (a * 4 + b div 16)]"
| "quanta [a, b, c] =
     Some [of_nat (a * 4 + b div 16), of_nat ((b mod 16) * 16 + c div 4)]"
| "quanta (a # b # c # d # rest) =
     map_option
       (\<lambda>r. of_nat (a * 4 + b div 16) # of_nat ((b mod 16) * 16 + c div 4) #
            of_nat ((c mod 4) * 64 + d) # r)
       (quanta rest)"

definition decodeRawURL :: "string \<Rightarrow> string + 8 word list" where
  "decodeRawURL src =
     (case sextets src of
        None \<Rightarrow> Inl ''illegal base64 data''
      | Some vs \<Rightarrow>
         (case quanta vs of
            None \<Rightarrow> Inl ''illegal base64 data''
          | Some dst \<Rightarrow> Inr dst))"

definition exampleLibrary :: "(8 word list, nat, string + string) Library" where
  "exampleLibrary =
     \<lparr>MarshalPKIXPublicKey =
        (\<lambda>key. if key = [] then Inl ''unsupported public key type'' else Inr key),
      Sum256 = (\<lambda>data. data),
      EncodeToString = hexEncode,
      Int63 = (\<lambda>n. (int n, Suc n)),
      FormatInt = formatInt16,
      DecodeString = decodeRawURL,
      GetStatus = Order.more\<rparr>"

text \<open>
  Objects at every address, none of them in the store yet. The account at address \<open>a\<close>
  has the key \<open>[a div 2]\<close>, so that the accounts at 2 and 3 share a key (no key at
  address 0); the order at address \<open>a\<close> belongs to account \<^verbatim>\<open>acct\<close>, has the one-letter ID
  \<open>[hextable ! a]\<close> below 16 and no ID from there on, the certificate at the address
  \<open>a mod 4\<close> from address 4 on, and a status computation that fails at the addresses
  divisible by 5; the certificate at \<open>a\<close> has the one-digit ID of \<open>a mod 4\<close>, and no ID
  when that is 0; the revoked certificate at \<open>a\<close> wraps the certificate at \<open>a\<close>.
\<close>

definition exampleState :: "(8 word list, nat, string + string) state" where
  "exampleState =
     \<lparr>Accounts = (\<lambda>a. \<lparr>Account_ID = [],
                         Account_Key = (if a = 0 then None else Some (OtherKey [of_nat (a div 2)]))\<rparr>),
      Orders = (\<lambda>a. \<lparr>Order_ID = (if a < 16 then [hextable ! a] else []),
                       Order_AccountID = ''acct'',
                       Order_Status = [],
                       Order_CertificateObject = (if a < 4 then None else Some (a mod 4)),
                       Order_IsReplaced = False,
                       \<dots> = (if a mod 5 = 0 then Inl ''order is in an invalid state''
                              else Inr ''pending'')\<rparr>),
      Certificates = (\<lambda>a. \<lparr>Certificate_ID = (if a mod 4 = 0 then [] else [hextable ! (a mod 4)]),
                             Certificate_DER = [of_nat a],
                             Certificate_SerialNumber = int (a mod 4),
                             Certificate_ARIResponse = []\<rparr>),
      RevokedCertificates = (\<lambda>a. \<lparr>RevokedCertificate_Certificate = a\<rparr>),
      m = NewMemoryStore 10\<rparr>"

text \<open>The states the store reaches from \<open>exampleState\<close> in the runs below.\<close>

definition withAccount2 :: "(8 word list, nat, string + string) state" where
  "withAccount2 =
     exampleState
       \<lparr>Accounts := (Accounts exampleState)(2 := (Accounts exampleState 2)\<lparr>Account_ID := ''a''\<rparr>),
        m := (m exampleState)
               \<lparr>accountRand := 11,
                accountsByID := (accountsByID (m exampleState))(''a'' \<mapsto> 2),
                accountsByKeyID := (accountsByKeyID (m exampleState))(''01'' \<mapsto> 2)\<rparr>\<rparr>"

definition withAccounts24 :: "(8 word list, nat, string + string) state" where
  "withAccounts24 =
     withAccount2
       \<lparr>Accounts := (Accounts withAccount2)(4 := (Accounts withAccount2 4)\<lparr>Account_ID := ''b''\<rparr>),
        m := (m withAccount2)
               \<lparr>accountRand := 12,
                accountsByID := (accountsByID (m withAccount2))(''b'' \<mapsto> 4),
                accountsByKeyID := (accountsByKeyID (m withAccount2))(''02'' \<mapsto> 4)\<rparr>\<rparr>"

definition withOrder :: "addr \<Rightarrow> (8 word list, nat, string + string) state" where
  "withOrder a =
     exampleState
       \<lparr>m := (m exampleState)\<lparr>ordersByID := Map.empty([hextable ! a] \<mapsto> a),
                               ordersByAccountID := [''acct'' \<mapsto> [a]]\<rparr>\<rparr>"

definition withOrders :: "addr \<Rightarrow> addr \<Rightarrow> (8 word list, nat, string + string) state" where
  "withOrders a b =
     exampleState
       \<lparr>m := (m exampleState)\<lparr>ordersByID := Map.empty([hextable ! a] \<mapsto> a, [hextable ! b] \<mapsto> b),
                               ordersByAccountID := [''acct'' \<mapsto> [a, b]]\<rparr>\<rparr>"

definition withSerial :: "(8 word list, nat, string + string) state" where
  "withSerial = exampleState\<lparr>m := (m exampleState)\<lparr>ordersByIssuedSerial := [''1'' \<mapsto> 5]\<rparr>\<rparr>"

definition withCertificate1 :: "(8 word list, nat, string + string) state" where
  "withCertificate1 =
     exampleState\<lparr>m := (m exampleState)\<lparr>certificatesByID := [''1'' \<mapsto> 1]\<rparr>\<rparr>"

definition withKid1 :: "(8 word list, nat, string + string) state" where
  "withKid1 = exampleState\<lparr>m := (m exampleState)\<lparr>externalAccountKeysByID := [''kid1'' \<mapsto> [1, 2, 3]]\<rparr>\<rparr>"

section \<open>Properties\<close>

lemmas example_defs = exampleLibrary_def exampleState_def NewMemoryStore_def formatInt16_def
  hexDigits.simps hextable_def hexEncode_def

subsection \<open>The block list compares reversed label lists\<close>

lemma length_reverseParts: "length (reverseParts i j xs) = length xs"
  by (induction i j xs rule: reverseParts.induct) (subst reverseParts.simps, simp)

lemma reverseParts_nth:
  "j < length xs \<Longrightarrow> k < length xs \<Longrightarrow>
   reverseParts i j xs ! k = (if i \<le> k \<and> k \<le> j then xs ! (i + j - k) else xs ! k)"
proof (induction i j xs arbitrary: k rule: reverseParts.induct)
  case (1 i j parts)
  show ?case
  proof (cases "i < j")
    case True
    let ?swapped = "parts[i := parts ! j, j := parts ! i]"
    have eq: "reverseParts i j parts = reverseParts (i + 1) (j - 1) ?swapped"
      using True by (subst reverseParts.simps) simp
    have j1: "j - 1 < length ?swapped" using 1(2) by simp
    have k1: "k < length ?swapped" using 1(3) by simp
    note IH = 1(1)[OF True j1 k1]
    consider (inner) "i + 1 \<le> k" "k \<le> j - 1" | (lo) "k = i" | (hi) "k = j"
      | (below) "k < i" | (above) "j < k"
      using True by linarith
    then show ?thesis
    proof cases
      case inner
      then have "(i + 1) + (j - 1) - k = i + j - k" "i + j - k \<noteq> i" "i + j - k \<noteq> j"
        "i + j - k < length parts" "i \<le> k" "k \<le> j"
        using True 1(2) by auto
      then show ?thesis using inner IH eq by (simp add: nth_list_update)
    next
      case lo
      then have "\<not> i + 1 \<le> k" "i \<le> k" "k \<le> j" "i + j - k = j" using True by auto
      then show ?thesis using IH eq lo True 1(2) by (simp add: nth_list_update)
    next
      case hi
      then have "\<not> k \<le> j - 1" "i \<le> k" "k \<le> j" "i + j - k = i" using True by auto
      then show ?thesis using IH eq hi True 1(2) by (simp add: nth_list_update)
    next
      case below
      then have "\<not> i + 1 \<le> k" "\<not> i \<le> k" "k \<noteq> i" "k \<noteq> j" using True by auto
      then show ?thesis using IH eq True 1(2) by (simp add: nth_list_update)
    next
      case above
      then have "\<not> k \<le> j - 1" "\<not> k \<le> j" "k \<noteq> i" "k \<noteq> j" using True by auto
      then show ?thesis using IH eq True 1(2) by (simp add: nth_list_update)
    qed
  next
    case False
    then have "i \<le> k \<and> k \<le> j \<longrightarrow> i + j - k = k" by auto
    with False show ?thesis by (subst reverseParts.simps) auto
  qed
qed

lemma reverseParts_rev: "reverseParts 0 (length xs - 1) xs = rev xs"
proof (cases "xs = []")
  case True
  then show ?thesis by (subst reverseParts.simps) simp
next
  case False
  show ?thesis
  proof (rule nth_equalityI)
    show "length (reverseParts 0 (length xs - 1) xs) = length (rev xs)"
      by (simp add: length_reverseParts)
  next
    fix k assume "k < length (reverseParts 0 (length xs - 1) xs)"
    then have k: "k < length xs" by (simp add: length_reverseParts)
    then have "reverseParts 0 (length xs - 1) xs ! k = xs ! (length xs - 1 - k)"
      using False by (subst reverseParts_nth) auto
    then show "reverseParts 0 (length xs - 1) xs ! k = rev xs ! k"
      using k by (simp add: rev_nth)
  qed
qed

lemma reversedLabels_rev: "reversedLabels name = rev (Split name)"
  unfolding reversedLabels_def by (rule reverseParts_rev)

text \<open>
  The inner loop from index \<open>i\<close> on, when the entry and the query agree below \<open>i\<close>: it
  matches when the entry is a prefix of the query, faults when the query is a proper
  prefix of the entry, and finds a differing label otherwise.
\<close>

lemma isMatch_from:
  "i \<le> length b \<Longrightarrow> i \<le> length d \<Longrightarrow> take i b = take i d \<Longrightarrow>
   isMatch b d [i..<length b] =
     (if prefix b d then Inr True
      else if prefix d b then Inl (IndexOutOfRange (length d) (length d))
      else Inr False)"
proof (induction "length b - i" arbitrary: i)
  case 0
  then have i: "i = length b" by simp
  with 0 have "b = take (length b) d" by simp
  then have "prefix b d" by (metis take_is_prefix)
  with i show ?case by simp
next
  case (Suc n)
  then have lt: "i < length b" by simp
  then have upt: "[i..<length b] = i # [Suc i..<length b]" by (simp add: upt_conv_Cons)
  show ?case
  proof (cases "length d \<le> i")
    case True
    with Suc.prems have i: "i = length d" by simp
    with Suc.prems have "d = take (length d) b" by simp
    then have pre: "prefix d b" by (metis take_is_prefix)
    have "\<not> prefix b d" using lt i by (auto dest: prefix_length_le)
    with pre True i upt show ?thesis by simp
  next
    case False
    then have ld: "i < length d" by simp
    show ?thesis
    proof (cases "b ! i = d ! i")
      case True
      have "take (Suc i) b = take (Suc i) d"
        using lt ld True Suc.prems(3) by (simp add: take_Suc_conv_app_nth)
      moreover have "n = length b - Suc i" using Suc.hyps(2) by simp
      ultimately have "isMatch b d [Suc i..<length b] =
         (if prefix b d then Inr True
          else if prefix d b then Inl (IndexOutOfRange (length d) (length d))
          else Inr False)"
        using Suc.hyps(1)[of "Suc i"] lt ld by simp
      with True ld upt show ?thesis by simp
    next
      case False
      have "\<not> prefix b d" using False lt by (auto simp: prefix_def nth_append)
      moreover have "\<not> prefix d b" using False ld by (auto simp: prefix_def nth_append)
      ultimately show ?thesis using False ld upt by simp
    qed
  qed
qed

lemma isMatch_prefix:
  "isMatch b d [0..<length b] =
     (if prefix b d then Inr True
      else if prefix d b then Inl (IndexOutOfRange (length d) (length d))
      else Inr False)"
  by (rule isMatch_from) simp_all

text \<open>
  The whole scan is decided by the first entry that is a prefix of the query or has the
  query as a prefix: the query is blocked in the first case, and the scan faults in the
  second, where the entry has more labels than the query.
\<close>

lemma scanBlockList_find:
  "scanBlockList bl d =
     (case find (\<lambda>b. prefix b d \<or> prefix d b) bl of
        None \<Rightarrow> Inr False
      | Some b \<Rightarrow> if prefix b d then Inr True
                  else Inl (IndexOutOfRange (length d) (length d)))"
  by (induction bl) (simp_all add: isMatch_prefix)

lemma IsDomainBlocked_find:
  "IsDomainBlocked name s =
     (case find (\<lambda>b. prefix b (rev (Split name)) \<or> prefix (rev (Split name)) b)
             (blockListByDomain (m s)) of
        None \<Rightarrow> Inr False
      | Some b \<Rightarrow> if prefix b (rev (Split name)) then Inr True
                  else Inl (IndexOutOfRange (length (Split name)) (length (Split name))))"
  by (simp add: IsDomainBlocked_def scanBlockList_find reversedLabels_rev split: option.splits)

text \<open>
  C1. Claimed: \<^verbatim>\<open>IsDomainBlocked\<close> never reads past the end of the query's reversed
  label list; an entry with more labels than the query does not match and the call
  cannot fault. The code: with the single entry \<^verbatim>\<open>foo.example.com\<close> in a new store, the
  query \<^verbatim>\<open>example.com\<close> agrees with the entry on \<^verbatim>\<open>com\<close> and \<^verbatim>\<open>example\<close>, and the
  third round reads \<^verbatim>\<open>domainParts[2]\<close> of a list of length 2.
\<close>

theorem IsDomainBlocked_longer_entry_faults:
  "IsDomainBlocked ''example.com''
     (snd (AddBlockedDomain ''foo.example.com'' (s\<lparr>m := NewMemoryStore seed\<rparr>))) =
   Inl (IndexOutOfRange 2 2)"
  by (simp add: IsDomainBlocked_def AddBlockedDomain_def NewMemoryStore_def
      reversedLabels_def Split_def reverseParts.simps)

text \<open>
  C2. Claimed: after \<^verbatim>\<open>Add("example.com")\<close> the names \<^verbatim>\<open>example.com\<close> and
  \<^verbatim>\<open>foo.example.com\<close> are blocked, \<^verbatim>\<open>com\<close> and \<^verbatim>\<open>other.com\<close> are not, and a longer
  entry never blocks a shorter query. The code agrees on three of the four names; on
  \<^verbatim>\<open>com\<close> it returns nothing, it faults reading \<^verbatim>\<open>domainParts[1]\<close>.
\<close>

theorem IsDomainBlocked_example_com:
  "IsDomainBlocked ''example.com''
     (snd (AddBlockedDomain ''example.com'' (s\<lparr>m := NewMemoryStore seed\<rparr>))) = Inr True \<and>
   IsDomainBlocked ''foo.example.com''
     (snd (AddBlockedDomain ''example.com'' (s\<lparr>m := NewMemoryStore seed\<rparr>))) = Inr True \<and>
   IsDomainBlocked ''other.com''
     (snd (AddBlockedDomain ''example.com'' (s\<lparr>m := NewMemoryStore seed\<rparr>))) = Inr False \<and>
   IsDomainBlocked ''com''
     (snd (AddBlockedDomain ''example.com'' (s\<lparr>m := NewMemoryStore seed\<rparr>))) =
     Inl (IndexOutOfRange 1 1)"
  by (simp add: IsDomainBlocked_def AddBlockedDomain_def NewMemoryStore_def
      reversedLabels_def Split_def reverseParts.simps)

subsection \<open>Accounts\<close>

lemma keyToID_not_ExistingAccountError: "keyToID lib key \<noteq> Inl (ExistingAccountError a)"
  by (induction lib key rule: keyToID.induct) (simp_all split: sum.splits)

lemma drawAccountID_returns:
  "byID (nthDraw lib rnd n) = None \<Longrightarrow>
   \<exists>acctID rnd'. drawAccountID lib byID rnd = Some (acctID, rnd') \<and> byID acctID = None"
proof (induction n arbitrary: rnd)
  case 0
  then show ?case by (subst drawAccountID.simps) (simp add: nthDraw_def)
next
  case (Suc n)
  have "nthDraw lib rnd (Suc n) = nthDraw lib (snd (Int63 lib rnd)) n"
    by (simp add: nthDraw_def funpow_Suc_right del: funpow.simps)
  with Suc.prems have "byID (nthDraw lib (snd (Int63 lib rnd)) n) = None" by simp
  from Suc.IH[OF this] show ?case by (subst drawAccountID.simps) auto
qed

lemma AddAccount_success:
  assumes "AddAccount lib acct s = Some (Inr n, s')"
  shows "\<exists>t keyID acctID rnd.
           Account_Key (Accounts s acct) = Some t \<and>
           keyToID lib (JSONWebKeyPtr (Some t)) = Inr keyID \<and>
           drawAccountID lib (accountsByID (m s)) (accountRand (m s)) = Some (acctID, rnd) \<and>
           accountsByKeyID (m s) keyID = None \<and>
           s' = s\<lparr>Accounts := (Accounts s)(acct := (Accounts s acct)\<lparr>Account_ID := acctID\<rparr>),
                  m := (m s)\<lparr>accountRand := rnd,
                            accountsByID := (accountsByID (m s))(acctID \<mapsto> acct),
                            accountsByKeyID := (accountsByKeyID (m s))(keyID \<mapsto> acct)\<rparr>\<rparr>"
  using assms unfolding AddAccount_def
  by (auto split: option.splits sum.splits if_splits prod.splits)

text \<open>
  C5. If \<^verbatim>\<open>AddAccount(a1)\<close> succeeded and the key of \<open>a2\<close> has the fingerprint of the key
  of \<open>a1\<close>, then \<^verbatim>\<open>AddAccount(a2)\<close> returns the error "account with key already exists";
  afterwards \<^verbatim>\<open>GetAccountByID(a1.ID)\<close> and \<^verbatim>\<open>GetAccountByKey(a1.Key)\<close> return \<open>a1\<close>,
  no account object has changed, and both account maps are as before the failed call
  (only the generator has advanced). The ID loop runs before the key is looked up; it
  returns because some draw of the generator gives an ID that is not in use.
\<close>

theorem AddAccount_existing_key:
  assumes first: "AddAccount lib a1 s0 = Some (Inr n, s1)"
    and same: "keyToID lib (JSONWebKeyPtr (Account_Key (Accounts s1 a2))) =
               keyToID lib (JSONWebKeyPtr (Account_Key (Accounts s1 a1)))"
    and fresh: "accountsByID (m s1) (nthDraw lib (accountRand (m s1)) k) = None"
  shows "\<exists>s2. AddAccount lib a2 s1 = Some (Inl AccountKeyExists, s2) \<and>
           GetAccountByID (Account_ID (Accounts s1 a1)) s2 = Some a1 \<and>
           GetAccountByKey lib (JSONWebKeyPtr (Account_Key (Accounts s1 a1))) s2 = Inr (Some a1) \<and>
           Accounts s2 = Accounts s1 \<and>
           accountsByID (m s2) = accountsByID (m s1) \<and>
           accountsByKeyID (m s2) = accountsByKeyID (m s1) \<and>
           s2 = s1\<lparr>m := (m s1)\<lparr>accountRand := accountRand (m s2)\<rparr>\<rparr>"
proof -
  from AddAccount_success[OF first] obtain t keyID acctID rnd where
    key: "Account_Key (Accounts s0 a1) = Some t"
    and kid: "keyToID lib (JSONWebKeyPtr (Some t)) = Inr keyID"
    and s1: "s1 = s0\<lparr>Accounts := (Accounts s0)(a1 := (Accounts s0 a1)\<lparr>Account_ID := acctID\<rparr>),
                  m := (m s0)\<lparr>accountRand := rnd,
                            accountsByID := (accountsByID (m s0))(acctID \<mapsto> a1),
                            accountsByKeyID := (accountsByKeyID (m s0))(keyID \<mapsto> a1)\<rparr>\<rparr>"
    by blast
  have key1: "Account_Key (Accounts s1 a1) = Some t" using key s1 by simp
  have id1: "Account_ID (Accounts s1 a1) = acctID" using s1 by simp
  have byID1: "accountsByID (m s1) acctID = Some a1" using s1 by simp
  have byKey1: "accountsByKeyID (m s1) keyID = Some a1" using s1 by simp
  from same key1 kid have kid2: "keyToID lib (JSONWebKeyPtr (Account_Key (Accounts s1 a2))) = Inr keyID"
    by simp
  then obtain t2 where key2: "Account_Key (Accounts s1 a2) = Some t2"
    by (cases "Account_Key (Accounts s1 a2)") auto
  from drawAccountID_returns[where byID = "accountsByID (m s1)" and lib = lib and rnd = "accountRand (m s1)" and n = k, OF fresh] obtain acctID2 rnd2 where
    draw: "drawAccountID lib (accountsByID (m s1)) (accountRand (m s1)) = Some (acctID2, rnd2)"
    by blast
  let ?s2 = "s1\<lparr>m := (m s1)\<lparr>accountRand := rnd2\<rparr>\<rparr>"
  have run: "AddAccount lib a2 s1 = Some (Inl AccountKeyExists, ?s2)"
    using key2 kid2 draw byKey1 by (simp add: AddAccount_def)
  moreover have "GetAccountByID (Account_ID (Accounts s1 a1)) ?s2 = Some a1"
    using id1 byID1 by (simp add: GetAccountByID_def)
  moreover have "GetAccountByKey lib (JSONWebKeyPtr (Account_Key (Accounts s1 a1))) ?s2 = Inr (Some a1)"
    using key1 kid byKey1 by (simp add: GetAccountByKey_def)
  ultimately show ?thesis by simp
qed

lemma AddAccount_example: "AddAccount exampleLibrary 2 exampleState = Some (Inr 1, withAccount2)"
  by (simp add: AddAccount_def drawAccountID.simps withAccount2_def example_defs)

theorem AddAccount_existing_key_witness:
  "AddAccount exampleLibrary 2 exampleState = Some (Inr 1, withAccount2) \<and>
   keyToID exampleLibrary (JSONWebKeyPtr (Account_Key (Accounts withAccount2 3))) =
     keyToID exampleLibrary (JSONWebKeyPtr (Account_Key (Accounts withAccount2 2))) \<and>
   accountsByID (m withAccount2) (nthDraw exampleLibrary (accountRand (m withAccount2)) 0) = None \<and>
   AddAccount exampleLibrary 3 withAccount2 =
     Some (Inl AccountKeyExists, withAccount2\<lparr>m := (m withAccount2)\<lparr>accountRand := 12\<rparr>\<rparr>) \<and>
   GetAccountByID ''a'' (withAccount2\<lparr>m := (m withAccount2)\<lparr>accountRand := 12\<rparr>\<rparr>) = Some 2 \<and>
   GetAccountByKey exampleLibrary (JSONWebKeyPtr (Some (OtherKey [1])))
     (withAccount2\<lparr>m := (m withAccount2)\<lparr>accountRand := 12\<rparr>\<rparr>) = Inr (Some 2)"
proof -
  have same: "keyToID exampleLibrary (JSONWebKeyPtr (Account_Key (Accounts withAccount2 3))) =
       keyToID exampleLibrary (JSONWebKeyPtr (Account_Key (Accounts withAccount2 2)))"
    by (simp add: withAccount2_def exampleState_def exampleLibrary_def)
  have fresh: "accountsByID (m withAccount2)
                 (nthDraw exampleLibrary (accountRand (m withAccount2)) 0) = None"
    by (simp add: withAccount2_def nthDraw_def example_defs)
  have run: "AddAccount exampleLibrary 3 withAccount2 =
     Some (Inl AccountKeyExists, withAccount2\<lparr>m := (m withAccount2)\<lparr>accountRand := 12\<rparr>\<rparr>)"
    by (simp add: AddAccount_def drawAccountID.simps withAccount2_def example_defs)
  have id2: "Account_ID (Accounts withAccount2 2) = ''a''"
    and key2: "Account_Key (Accounts withAccount2 2) = Some (OtherKey [1])"
    by (simp_all add: withAccount2_def exampleState_def)
  from AddAccount_existing_key[OF AddAccount_example same fresh] run id2 key2
  show ?thesis using AddAccount_example same fresh by auto
qed

lemma AddAccount_example_second:
  "AddAccount exampleLibrary 4 withAccount2 = Some (Inr 2, withAccounts24)"
  by (simp add: AddAccount_def drawAccountID.simps withAccounts24_def withAccount2_def example_defs)

lemma keyToID_error:
  "keyToID lib key = Inl err \<Longrightarrow> err = NilKeyError \<or> (\<exists>msg. err = LibraryError msg)"
  by (induction lib key rule: keyToID.induct) (auto split: sum.splits)

lemma ChangeAccountKey_failure_unchanged:
  "ChangeAccountKey lib acct newKey s = (Inl err, s') \<Longrightarrow> s' = s"
  unfolding ChangeAccountKey_def by (auto split: sum.splits option.splits)

text \<open>
  C3, as the code has it. \<^verbatim>\<open>ChangeAccountKey(acct, newKey)\<close> fails with
  \<^verbatim>\<open>ExistingAccountError\<close>, carrying the account found, exactly when the key IDs of the
  current key of \<open>acct\<close> and of \<open>newKey\<close> can both be computed and the new key ID is in
  \<^verbatim>\<open>accountsByKeyID\<close>, whichever account it maps to, \<open>acct\<close> itself included; every
  failing call leaves the state as it was; when both key IDs can be computed and the new
  one maps to no account the call succeeds, removes the old key ID, puts \<open>acct\<close> under
  the new one and under its ID, and sets the key of \<open>acct\<close>.
\<close>

theorem ChangeAccountKey_conflict:
  "(fst (ChangeAccountKey lib acct newKey s) = Inl (ExistingAccountError other) \<longleftrightarrow>
      (\<exists>oldKeyID newKeyID.
         keyToID lib (JSONWebKeyPtr (Account_Key (Accounts s acct))) = Inr oldKeyID \<and>
         keyToID lib (JSONWebKeyPtr newKey) = Inr newKeyID \<and>
         accountsByKeyID (m s) newKeyID = Some other)) \<and>
   (\<forall>err. fst (ChangeAccountKey lib acct newKey s) = Inl err \<longrightarrow>
      snd (ChangeAccountKey lib acct newKey s) = s) \<and>
   (\<forall>oldKeyID newKeyID.
      keyToID lib (JSONWebKeyPtr (Account_Key (Accounts s acct))) = Inr oldKeyID \<and>
      keyToID lib (JSONWebKeyPtr newKey) = Inr newKeyID \<and>
      accountsByKeyID (m s) newKeyID = None \<longrightarrow>
      ChangeAccountKey lib acct newKey s =
        (Inr (),
         s\<lparr>Accounts := (Accounts s)(acct := (Accounts s acct)\<lparr>Account_Key := newKey\<rparr>),
           m := (m s)\<lparr>accountsByKeyID :=
                       ((accountsByKeyID (m s))(oldKeyID := None))(newKeyID \<mapsto> acct),
                     accountsByID :=
                       (accountsByID (m s))(Account_ID (Accounts s acct) \<mapsto> acct)\<rparr>\<rparr>))"
proof (intro conjI allI impI)
  show "fst (ChangeAccountKey lib acct newKey s) = Inl (ExistingAccountError other) \<longleftrightarrow>
      (\<exists>oldKeyID newKeyID.
         keyToID lib (JSONWebKeyPtr (Account_Key (Accounts s acct))) = Inr oldKeyID \<and>
         keyToID lib (JSONWebKeyPtr newKey) = Inr newKeyID \<and>
         accountsByKeyID (m s) newKeyID = Some other)"
    unfolding ChangeAccountKey_def
    by (auto split: sum.splits option.splits simp: keyToID_not_ExistingAccountError)
next
  fix err assume "fst (ChangeAccountKey lib acct newKey s) = Inl err"
  then show "snd (ChangeAccountKey lib acct newKey s) = s"
    using ChangeAccountKey_failure_unchanged[of lib acct newKey s err]
    by (cases "ChangeAccountKey lib acct newKey s") simp
next
  fix oldKeyID newKeyID
  assume "keyToID lib (JSONWebKeyPtr (Account_Key (Accounts s acct))) = Inr oldKeyID \<and>
      keyToID lib (JSONWebKeyPtr newKey) = Inr newKeyID \<and>
      accountsByKeyID (m s) newKeyID = None"
  then show "ChangeAccountKey lib acct newKey s =
        (Inr (),
         s\<lparr>Accounts := (Accounts s)(acct := (Accounts s acct)\<lparr>Account_Key := newKey\<rparr>),
           m := (m s)\<lparr>accountsByKeyID :=
                       ((accountsByKeyID (m s))(oldKeyID := None))(newKeyID \<mapsto> acct),
                     accountsByID :=
                       (accountsByID (m s))(Account_ID (Accounts s acct) \<mapsto> acct)\<rparr>\<rparr>)"
    by (simp add: ChangeAccountKey_def)
qed

theorem ChangeAccountKey_conflict_witness:
  "ChangeAccountKey exampleLibrary 2 (Some (OtherKey [2])) withAccounts24 =
     (Inl (ExistingAccountError 4), withAccounts24) \<and>
   ChangeAccountKey exampleLibrary 2 (Some (OtherKey [7])) withAccounts24 =
     (Inr (),
      withAccounts24
        \<lparr>Accounts := (Accounts withAccounts24)
                       (2 := (Accounts withAccounts24 2)\<lparr>Account_Key := Some (OtherKey [7])\<rparr>),
         m := (m withAccounts24)
                \<lparr>accountsByKeyID :=
                   ((accountsByKeyID (m withAccounts24))(''01'' := None))(''07'' \<mapsto> 2),
                 accountsByID := (accountsByID (m withAccounts24))(''a'' \<mapsto> 2)\<rparr>\<rparr>)"
proof -
  have old: "keyToID exampleLibrary (JSONWebKeyPtr (Account_Key (Accounts withAccounts24 2))) = Inr ''01''"
    by (simp add: withAccounts24_def withAccount2_def example_defs)
  have taken: "keyToID exampleLibrary (JSONWebKeyPtr (Some (OtherKey [2]))) = Inr ''02''"
    "accountsByKeyID (m withAccounts24) ''02'' = Some 4"
    by (simp_all add: withAccounts24_def withAccount2_def example_defs)
  have unused: "keyToID exampleLibrary (JSONWebKeyPtr (Some (OtherKey [7]))) = Inr ''07''"
    "accountsByKeyID (m withAccounts24) ''07'' = None"
    by (simp_all add: withAccounts24_def withAccount2_def example_defs)
  have id2: "Account_ID (Accounts withAccounts24 2) = ''a''"
    by (simp add: withAccounts24_def withAccount2_def example_defs)
  note conflict = ChangeAccountKey_conflict[where lib = exampleLibrary and acct = 2
      and newKey = "Some (OtherKey [2])" and s = withAccounts24 and other = 4]
  note change = ChangeAccountKey_conflict[where lib = exampleLibrary and acct = 2
      and newKey = "Some (OtherKey [7])" and s = withAccounts24]
  from conflict old taken
  have "fst (ChangeAccountKey exampleLibrary 2 (Some (OtherKey [2])) withAccounts24) =
          Inl (ExistingAccountError 4)"
    and "snd (ChangeAccountKey exampleLibrary 2 (Some (OtherKey [2])) withAccounts24) = withAccounts24"
    by auto
  then have failed: "ChangeAccountKey exampleLibrary 2 (Some (OtherKey [2])) withAccounts24 =
     (Inl (ExistingAccountError 4), withAccounts24)"
    by (simp add: prod_eq_iff)
  from change old unused id2
  have "ChangeAccountKey exampleLibrary 2 (Some (OtherKey [7])) withAccounts24 =
     (Inr (),
      withAccounts24
        \<lparr>Accounts := (Accounts withAccounts24)
                       (2 := (Accounts withAccounts24 2)\<lparr>Account_Key := Some (OtherKey [7])\<rparr>),
         m := (m withAccounts24)
                \<lparr>accountsByKeyID :=
                   ((accountsByKeyID (m withAccounts24))(''01'' := None))(''07'' \<mapsto> 2),
                 accountsByID := (accountsByID (m withAccounts24))(''a'' \<mapsto> 2)\<rparr>\<rparr>)"
    by auto
  with failed show ?thesis by simp
qed

text \<open>
  C3 as claimed says that the call succeeds when the new fingerprint maps to \<open>acct\<close>
  itself. Account 2 is registered under the key ID \<^verbatim>\<open>01\<close>; changing its key to the key
  it has fails with \<^verbatim>\<open>ExistingAccountError{2}\<close>.
\<close>

theorem ChangeAccountKey_own_key_counterexample:
  "accountsByKeyID (m withAccount2) ''01'' = Some 2 \<and>
   keyToID exampleLibrary (JSONWebKeyPtr (Some (OtherKey [1]))) = Inr ''01'' \<and>
   ChangeAccountKey exampleLibrary 2 (Some (OtherKey [1])) withAccount2 =
     (Inl (ExistingAccountError 2), withAccount2)"
  by (simp add: ChangeAccountKey_def withAccount2_def example_defs)

subsection \<open>Certificates\<close>

text \<open>
  C4, as the code has it. An ID in the live index or in the revoked index blocks
  \<^verbatim>\<open>AddCertificate\<close> of a certificate with that (non-empty) ID: the call returns
  "already exists", or "already exists (and is revoked)" when the ID is in the revoked
  index only, and leaves the state as it was. \<^verbatim>\<open>RevokeCertificate\<close> is not blocked by
  anything: afterwards the revoked index holds its argument under the certificate's ID.
\<close>

theorem AddCertificate_shared_namespace:
  "(Certificate_ID (Certificates s cert) \<noteq> [] \<and>
    certificatesByID (m s) (Certificate_ID (Certificates s cert)) \<noteq> None \<longrightarrow>
      AddCertificate cert s = (Inl (CertExists (Certificate_ID (Certificates s cert))), s)) \<and>
   (Certificate_ID (Certificates s cert) \<noteq> [] \<and>
    certificatesByID (m s) (Certificate_ID (Certificates s cert)) = None \<and>
    revokedCertificatesByID (m s) (Certificate_ID (Certificates s cert)) \<noteq> None \<longrightarrow>
      AddCertificate cert s =
        (Inl (CertExistsRevoked (Certificate_ID (Certificates s cert))), s)) \<and>
   revokedCertificatesByID (m (RevokeCertificate rc s))
     (Certificate_ID (Certificates s (RevokedCertificate_Certificate (RevokedCertificates s rc)))) =
     Some rc"
  by (simp add: AddCertificate_def RevokeCertificate_def)

lemma AddCertificate_example: "AddCertificate 1 exampleState = (Inr 1, withCertificate1)"
  by (simp add: AddCertificate_def withCertificate1_def example_defs)

theorem AddCertificate_shared_namespace_witness:
  "AddCertificate 5 withCertificate1 = (Inl (CertExists ''1''), withCertificate1) \<and>
   AddCertificate 2 (RevokeCertificate 6 withCertificate1) =
     (Inl (CertExistsRevoked ''2''), RevokeCertificate 6 withCertificate1) \<and>
   revokedCertificatesByID (m (RevokeCertificate 6 withCertificate1)) ''2'' = Some 6"
proof -
  have a: "Certificate_ID (Certificates withCertificate1 5) = ''1''"
    "certificatesByID (m withCertificate1) ''1'' \<noteq> None"
    by (simp_all add: withCertificate1_def example_defs)
  have b: "Certificate_ID (Certificates (RevokeCertificate 6 withCertificate1) 2) = ''2''"
    "certificatesByID (m (RevokeCertificate 6 withCertificate1)) ''2'' = None"
    "revokedCertificatesByID (m (RevokeCertificate 6 withCertificate1)) ''2'' \<noteq> None"
    by (simp_all add: RevokeCertificate_def withCertificate1_def example_defs)
  have c: "Certificate_ID (Certificates withCertificate1
       (RevokedCertificate_Certificate (RevokedCertificates withCertificate1 6))) = ''2''"
    by (simp add: withCertificate1_def example_defs)
  show ?thesis
    using AddCertificate_shared_namespace[of withCertificate1 5 6]
      AddCertificate_shared_namespace[of "RevokeCertificate 6 withCertificate1" 2 6] a b c
    by simp
qed

text \<open>
  C4 as claimed says that an ID in the live index blocks its insertion into the revoked
  index. Certificate 1 is added under the ID \<^verbatim>\<open>1\<close>; revoking it puts the same ID into
  the revoked index, and the live index still holds it.
\<close>

theorem RevokeCertificate_live_ID_counterexample:
  "AddCertificate 1 exampleState = (Inr 1, withCertificate1) \<and>
   certificatesByID (m withCertificate1) ''1'' = Some 1 \<and>
   Certificate_ID (Certificates withCertificate1
       (RevokedCertificate_Certificate (RevokedCertificates withCertificate1 1))) = ''1'' \<and>
   revokedCertificatesByID (m withCertificate1) ''1'' = None \<and>
   revokedCertificatesByID (m (RevokeCertificate 1 withCertificate1)) ''1'' = Some 1 \<and>
   certificatesByID (m (RevokeCertificate 1 withCertificate1)) ''1'' = Some 1"
  by (simp add: AddCertificate_def RevokeCertificate_def withCertificate1_def example_defs)

text \<open>
  C9. \<^verbatim>\<open>RevokeCertificate\<close> has no error result and changes the revoked index only:
  the live index, so every answer of \<^verbatim>\<open>GetCertificateByID\<close>, every other field of the
  store and every object are as before, and the revoked index maps the ID of the wrapped
  certificate to the argument, whatever it mapped that ID to before.
\<close>

theorem RevokeCertificate_frame:
  "certificatesByID (m (RevokeCertificate rc s)) = certificatesByID (m s) \<and>
   GetCertificateByID id' (RevokeCertificate rc s) = GetCertificateByID id' s \<and>
   (m (RevokeCertificate rc s))\<lparr>revokedCertificatesByID := revokedCertificatesByID (m s)\<rparr> = m s \<and>
   (RevokeCertificate rc s)\<lparr>m := m s\<rparr> = s \<and>
   revokedCertificatesByID (m (RevokeCertificate rc s)) =
     (revokedCertificatesByID (m s))
       (Certificate_ID (Certificates s (RevokedCertificate_Certificate (RevokedCertificates s rc)))
        \<mapsto> rc)"
  by (simp add: RevokeCertificate_def GetCertificateByID_def)

subsection \<open>External account keys\<close>

lemma AddExternalAccountKeyByID_keeps:
  "externalAccountKeysByID (m s) keyID = Some v \<Longrightarrow>
   externalAccountKeysByID (m (snd (AddExternalAccountKeyByID lib keyID' key' s))) keyID = Some v"
  by (auto simp: AddExternalAccountKeyByID_def split: sum.splits)

lemma AddExternalAccountKeys_keeps:
  "externalAccountKeysByID (m s) keyID = Some v \<Longrightarrow>
   externalAccountKeysByID (m (AddExternalAccountKeys lib calls s)) keyID = Some v"
proof (induction calls arbitrary: s)
  case Nil
  then show ?case by simp
next
  case (Cons call calls)
  obtain keyID' key' where call: "call = (keyID', key')" by (cases call)
  from Cons.prems have "externalAccountKeysByID
      (m (snd (AddExternalAccountKeyByID lib keyID' key' s))) keyID = Some v"
    by (rule AddExternalAccountKeyByID_keeps)
  from Cons.IH[OF this] call show ?case by simp
qed

lemma AddExternalAccountKeyByID_present:
  "externalAccountKeysByID (m s) keyID = Some v \<Longrightarrow>
   \<exists>err. AddExternalAccountKeyByID lib keyID key s = (Inl err, s)"
  by (auto simp: AddExternalAccountKeyByID_def split: sum.splits)

text \<open>
  C6. \<^verbatim>\<open>AddExternalAccountKeyByID(keyID, key)\<close> checks in this order: an empty
  argument gives "must not be empty"; a key the decoder rejects gives the decode error;
  a key ID already present gives "already present"; each failure leaves the state as it
  was. Otherwise the decoded bytes are stored, and after any further calls of
  \<^verbatim>\<open>AddExternalAccountKeyByID\<close> every call with the same key ID fails and
  \<^verbatim>\<open>GetExtenalAccountKeyByID(keyID)\<close> still returns the first decoded value.
\<close>

theorem AddExternalAccountKeyByID_write_once:
  "(key = [] \<or> keyID = [] \<longrightarrow>
      AddExternalAccountKeyByID lib keyID key s = (Inl ExternalKeyEmpty, s)) \<and>
   (key \<noteq> [] \<and> keyID \<noteq> [] \<and> DecodeString lib key = Inl err \<longrightarrow>
      AddExternalAccountKeyByID lib keyID key s = (Inl (ExternalKeyDecode key err), s)) \<and>
   (key \<noteq> [] \<and> keyID \<noteq> [] \<and> DecodeString lib key = Inr keyDecoded \<and>
    externalAccountKeysByID (m s) keyID \<noteq> None \<longrightarrow>
      AddExternalAccountKeyByID lib keyID key s = (Inl (ExternalKeyPresent keyID), s)) \<and>
   (key \<noteq> [] \<and> keyID \<noteq> [] \<and> DecodeString lib key = Inr keyDecoded \<and>
    externalAccountKeysByID (m s) keyID = None \<longrightarrow>
      fst (AddExternalAccountKeyByID lib keyID key s) = Inr () \<and>
      GetExtenalAccountKeyByID keyID (snd (AddExternalAccountKeyByID lib keyID key s)) =
        Some keyDecoded \<and>
      (\<forall>calls later.
         GetExtenalAccountKeyByID keyID
           (AddExternalAccountKeys lib calls
              (snd (AddExternalAccountKeyByID lib keyID key s))) = Some keyDecoded \<and>
         (\<exists>e. AddExternalAccountKeyByID lib keyID later
                (AddExternalAccountKeys lib calls
                   (snd (AddExternalAccountKeyByID lib keyID key s))) =
              (Inl e,
               AddExternalAccountKeys lib calls
                 (snd (AddExternalAccountKeyByID lib keyID key s))))))"
proof (intro conjI impI allI)
  assume a: "key \<noteq> [] \<and> keyID \<noteq> [] \<and> DecodeString lib key = Inr keyDecoded \<and>
    externalAccountKeysByID (m s) keyID = None"
  let ?s' = "snd (AddExternalAccountKeyByID lib keyID key s)"
  from a show "fst (AddExternalAccountKeyByID lib keyID key s) = Inr ()"
    by (simp add: AddExternalAccountKeyByID_def)
  from a have stored: "externalAccountKeysByID (m ?s') keyID = Some keyDecoded"
    by (simp add: AddExternalAccountKeyByID_def)
  then show "GetExtenalAccountKeyByID keyID ?s' = Some keyDecoded"
    by (simp add: GetExtenalAccountKeyByID_def)
  fix calls later
  from stored have kept: "externalAccountKeysByID (m (AddExternalAccountKeys lib calls ?s')) keyID =
      Some keyDecoded"
    by (rule AddExternalAccountKeys_keeps)
  then show "GetExtenalAccountKeyByID keyID (AddExternalAccountKeys lib calls ?s') = Some keyDecoded"
    by (simp add: GetExtenalAccountKeyByID_def)
  from kept show "\<exists>e. AddExternalAccountKeyByID lib keyID later (AddExternalAccountKeys lib calls ?s') =
      (Inl e, AddExternalAccountKeys lib calls ?s')"
    by (rule AddExternalAccountKeyByID_present)
qed (simp_all add: AddExternalAccountKeyByID_def)

lemma decode_examples:
  "DecodeString exampleLibrary ''AQID'' = Inr [1, 2, 3]"
  "DecodeString exampleLibrary ''AQI='' = Inl ''illegal base64 data''"
  "DecodeString exampleLibrary ''BAUG'' = Inr [4, 5, 6]"
  by (simp_all add: exampleLibrary_def decodeRawURL_def encodeURL_def)

lemma AddExternalAccountKeyByID_example:
  "AddExternalAccountKeyByID exampleLibrary ''kid1'' ''AQID'' exampleState = (Inr (), withKid1)"
  by (simp add: AddExternalAccountKeyByID_def decode_examples withKid1_def exampleState_def NewMemoryStore_def)

theorem AddExternalAccountKeyByID_write_once_witness:
  "AddExternalAccountKeyByID exampleLibrary ''kid1'' [] exampleState =
     (Inl ExternalKeyEmpty, exampleState) \<and>
   AddExternalAccountKeyByID exampleLibrary ''kid1'' ''AQI='' exampleState =
     (Inl (ExternalKeyDecode ''AQI='' ''illegal base64 data''), exampleState) \<and>
   AddExternalAccountKeyByID exampleLibrary ''kid1'' ''AQID'' exampleState = (Inr (), withKid1) \<and>
   GetExtenalAccountKeyByID ''kid1'' withKid1 = Some [1, 2, 3] \<and>
   AddExternalAccountKeyByID exampleLibrary ''kid1'' ''BAUG'' withKid1 =
     (Inl (ExternalKeyPresent ''kid1''), withKid1) \<and>
   GetExtenalAccountKeyByID ''kid1''
     (AddExternalAccountKeys exampleLibrary [(''kid1'', ''BAUG''), (''kid2'', ''BAUG'')] withKid1) =
     Some [1, 2, 3]"
proof -
  have absent: "externalAccountKeysByID (m exampleState) ''kid1'' = None"
    by (simp add: exampleState_def NewMemoryStore_def)
  have present: "externalAccountKeysByID (m withKid1) ''kid1'' \<noteq> None"
    by (simp add: withKid1_def)
  have s': "snd (AddExternalAccountKeyByID exampleLibrary ''kid1'' ''AQID'' exampleState) = withKid1"
    by (simp add: AddExternalAccountKeyByID_example)
  have empty: "AddExternalAccountKeyByID exampleLibrary ''kid1'' [] exampleState =
      (Inl ExternalKeyEmpty, exampleState)"
    using AddExternalAccountKeyByID_write_once[where key = "[]" and keyID = "''kid1''"
        and lib = exampleLibrary and s = exampleState]
    by simp
  have undecodable: "AddExternalAccountKeyByID exampleLibrary ''kid1'' ''AQI='' exampleState =
      (Inl (ExternalKeyDecode ''AQI='' ''illegal base64 data''), exampleState)"
    using AddExternalAccountKeyByID_write_once[where key = "''AQI=''" and keyID = "''kid1''"
        and lib = exampleLibrary and s = exampleState and err = "''illegal base64 data''"]
      decode_examples
    by simp
  have again: "AddExternalAccountKeyByID exampleLibrary ''kid1'' ''BAUG'' withKid1 =
      (Inl (ExternalKeyPresent ''kid1''), withKid1)"
    using AddExternalAccountKeyByID_write_once[where key = "''BAUG''" and keyID = "''kid1''"
        and lib = exampleLibrary and s = withKid1 and keyDecoded = "[4, 5, 6]"]
      decode_examples present
    by simp
  have first: "GetExtenalAccountKeyByID ''kid1'' withKid1 = Some [1, 2, 3] \<and>
      (\<forall>calls. GetExtenalAccountKeyByID ''kid1''
           (AddExternalAccountKeys exampleLibrary calls withKid1) = Some [1, 2, 3])"
    using AddExternalAccountKeyByID_write_once[where key = "''AQID''" and keyID = "''kid1''"
        and lib = exampleLibrary and s = exampleState and keyDecoded = "[1, 2, 3]"]
      decode_examples absent s'
    by simp
  from first have later: "GetExtenalAccountKeyByID ''kid1''
     (AddExternalAccountKeys exampleLibrary [(''kid1'', ''BAUG''), (''kid2'', ''BAUG'')] withKid1) =
     Some [1, 2, 3]"
    by blast
  from empty undecodable AddExternalAccountKeyByID_example first again later
  show ?thesis by blast
qed

text \<open>
  No other operation modelled here writes \<^verbatim>\<open>externalAccountKeysByID\<close>; the reads of
  orders leave the whole store as it is and write to orders only.
\<close>

lemma refreshStatuses_store: "m (snd (refreshStatuses lib ps held s)) = m s"
  by (induction ps arbitrary: held s) (auto split: sum.splits)

lemma GetOrdersByAccountID_store: "m (snd (GetOrdersByAccountID lib accountID s)) = m s"
proof (cases "ordersByAccountID (m s) accountID")
  case None
  then show ?thesis by (simp add: GetOrdersByAccountID_def)
next
  case (Some ps)
  then show ?thesis
    using refreshStatuses_store[of lib ps "[]" s]
    by (auto simp: GetOrdersByAccountID_def split: prod.splits sum.splits)
qed

lemma externalAccountKeysByID_written_by_Add_only:
  "externalAccountKeysByID (m (snd (AddBlockedDomain name s))) = externalAccountKeysByID (m s)"
  "AddAccount lib acct s = Some (r, s') \<Longrightarrow>
     externalAccountKeysByID (m s') = externalAccountKeysByID (m s)"
  "externalAccountKeysByID (m (snd (ChangeAccountKey lib acct newKey s))) =
     externalAccountKeysByID (m s)"
  "externalAccountKeysByID (m (snd (AddOrder order s))) = externalAccountKeysByID (m s)"
  "externalAccountKeysByID (m (snd (AddOrderByIssuedSerial order s))) =
     externalAccountKeysByID (m s)"
  "externalAccountKeysByID (m (snd (GetOrderByID lib id' s))) = externalAccountKeysByID (m s)"
  "externalAccountKeysByID (m (snd (AddCertificate cert s))) = externalAccountKeysByID (m s)"
  "externalAccountKeysByID (m (RevokeCertificate rc s)) = externalAccountKeysByID (m s)"
  by (auto simp: AddBlockedDomain_def AddAccount_def ChangeAccountKey_def AddOrder_def Let_def
      AddOrderByIssuedSerial_def GetOrderByID_def AddCertificate_def RevokeCertificate_def
      split: option.splits sum.splits if_splits prod.splits)

subsection \<open>Orders\<close>

text \<open>
  The loop of \<^verbatim>\<open>GetOrdersByAccountID\<close>. When it returns, the orders were pairwise
  distinct and none of their locks was held, each has the status computed from its state
  before the call, and nothing else has changed.
\<close>

lemma refreshStatuses_returned:
  "refreshStatuses lib ps held s = (Inr u, s') \<Longrightarrow>
   distinct ps \<and> set ps \<inter> set held = {} \<and>
   (\<forall>p \<in> set ps. \<exists>st. GetStatus lib (Orders s p) = Inr st \<and>
                         Orders s' p = (Orders s p)\<lparr>Order_Status := st\<rparr>) \<and>
   (\<forall>p. p \<notin> set ps \<longrightarrow> Orders s' p = Orders s p) \<and>
   s'\<lparr>Orders := Orders s\<rparr> = s"
proof (induction ps arbitrary: held s)
  case Nil
  then show ?case by auto
next
  case (Cons order rest)
  from Cons.prems obtain st where st: "GetStatus lib (Orders s order) = Inr st"
    by (cases "GetStatus lib (Orders s order)") auto
  from Cons.prems st have free: "order \<notin> set held" by (auto split: if_splits)
  let ?s1 = "s\<lparr>Orders := (Orders s)(order := (Orders s order)\<lparr>Order_Status := st\<rparr>)\<rparr>"
  from Cons.prems st free have run: "refreshStatuses lib rest (order # held) ?s1 = (Inr u, s')"
    by simp
  from Cons.IH[OF run] have
    d: "distinct rest" and disj: "set rest \<inter> set (order # held) = {}"
    and each: "\<forall>p \<in> set rest. \<exists>st'. GetStatus lib (Orders ?s1 p) = Inr st' \<and>
                         Orders s' p = (Orders ?s1 p)\<lparr>Order_Status := st'\<rparr>"
    and others: "\<forall>p. p \<notin> set rest \<longrightarrow> Orders s' p = Orders ?s1 p"
    and frame: "s'\<lparr>Orders := Orders ?s1\<rparr> = ?s1"
    by blast+
  from disj have notin: "order \<notin> set rest" by auto
  have "distinct (order # rest)" using d notin by simp
  moreover have "set (order # rest) \<inter> set held = {}" using disj free by auto
  moreover have "\<forall>p \<in> set (order # rest). \<exists>st'. GetStatus lib (Orders s p) = Inr st' \<and>
                         Orders s' p = (Orders s p)\<lparr>Order_Status := st'\<rparr>"
  proof
    fix p assume p: "p \<in> set (order # rest)"
    show "\<exists>st'. GetStatus lib (Orders s p) = Inr st' \<and>
                         Orders s' p = (Orders s p)\<lparr>Order_Status := st'\<rparr>"
    proof (cases "p = order")
      case True
      with others notin st show ?thesis by simp
    next
      case False
      with p have "p \<in> set rest" by simp
      with each False show ?thesis by auto
    qed
  qed
  moreover have "\<forall>p. p \<notin> set (order # rest) \<longrightarrow> Orders s' p = Orders s p"
    using others by auto
  moreover have "s'\<lparr>Orders := Orders s\<rparr> = s"
  proof -
    from frame have "(s'\<lparr>Orders := Orders ?s1\<rparr>)\<lparr>Orders := Orders s\<rparr> = ?s1\<lparr>Orders := Orders s\<rparr>"
      by simp
    then show ?thesis by simp
  qed
  ultimately show ?case by blast
qed

lemma refreshStatuses_returns:
  "distinct ps \<Longrightarrow> set ps \<inter> set held = {} \<Longrightarrow>
   \<forall>p \<in> set ps. \<exists>st. GetStatus lib (Orders s p) = Inr st \<Longrightarrow>
   \<exists>s'. refreshStatuses lib ps held s = (Inr (), s')"
proof (induction ps arbitrary: held s)
  case Nil
  then show ?case by simp
next
  case (Cons order rest)
  from Cons.prems obtain st where st: "GetStatus lib (Orders s order) = Inr st" by auto
  let ?s1 = "s\<lparr>Orders := (Orders s)(order := (Orders s order)\<lparr>Order_Status := st\<rparr>)\<rparr>"
  have "\<forall>p \<in> set rest. \<exists>st. GetStatus lib (Orders ?s1 p) = Inr st"
    using Cons.prems by auto
  moreover have "distinct rest" "set rest \<inter> set (order # held) = {}"
    using Cons.prems by auto
  ultimately obtain s' where "refreshStatuses lib rest (order # held) ?s1 = (Inr (), s')"
    using Cons.IH by blast
  moreover have "order \<notin> set held" using Cons.prems by auto
  ultimately show ?case using st by simp
qed

lemma refreshStatuses_panics:
  "distinct ps \<Longrightarrow> set ps \<inter> set held = {} \<Longrightarrow>
   \<exists>p \<in> set ps. \<exists>err. GetStatus lib (Orders s p) = Inl err \<Longrightarrow>
   \<exists>err s'. refreshStatuses lib ps held s = (Inl (StatusPanic err), s')"
proof (induction ps arbitrary: held s)
  case Nil
  then show ?case by simp
next
  case (Cons order rest)
  show ?case
  proof (cases "GetStatus lib (Orders s order)")
    case (Inl err)
    then show ?thesis by simp
  next
    case (Inr st)
    let ?s1 = "s\<lparr>Orders := (Orders s)(order := (Orders s order)\<lparr>Order_Status := st\<rparr>)\<rparr>"
    from Cons.prems Inr obtain p err where p: "p \<in> set rest" "GetStatus lib (Orders s p) = Inl err"
      by auto
    with Cons.prems have "p \<noteq> order" by auto
    with p have "\<exists>p \<in> set rest. \<exists>err. GetStatus lib (Orders ?s1 p) = Inl err" by auto
    moreover have "distinct rest" "set rest \<inter> set (order # held) = {}"
      using Cons.prems by auto
    ultimately obtain err' s' where
      "refreshStatuses lib rest (order # held) ?s1 = (Inl (StatusPanic err'), s')"
      using Cons.IH by blast
    moreover have "order \<notin> set held" using Cons.prems by auto
    ultimately show ?thesis using Inr by simp
  qed
qed

lemma GetOrdersByAccountID_same_order_twice:
  "ordersByAccountID (m s) accountID = Some [order, order] \<Longrightarrow>
   GetStatus lib (Orders s order) = Inr st \<Longrightarrow>
   GetStatus lib ((Orders s order)\<lparr>Order_Status := st\<rparr>) = Inr st' \<Longrightarrow>
   fst (GetOrdersByAccountID lib accountID s) = Inl (SelfDeadlock order)"
  by (simp add: GetOrdersByAccountID_def)

text \<open>
  C7, as the code has it. \<^verbatim>\<open>AddOrder(o)\<close> fails on an empty ID and on an ID already
  in \<^verbatim>\<open>ordersByID\<close>, leaving the state as it was, and succeeds otherwise. After a
  success \<^verbatim>\<open>ordersByID\<close> maps the ID to \<open>o\<close> and the list of the account is the list
  before (empty when absent) followed by \<open>o\<close>. \<^verbatim>\<open>GetOrderByID(o.ID)\<close> then returns
  \<open>o\<close> when the status computation of \<open>o\<close> succeeds and panics when it fails; every
  list \<^verbatim>\<open>GetOrdersByAccountID(o.AccountID)\<close> returns contains \<open>o\<close>, and it returns the
  list when its orders are pairwise distinct and each has a status.
\<close>

theorem AddOrder_indices:
  "(Order_ID (Orders s order) = [] \<longrightarrow> AddOrder order s = (Inl OrderEmptyID, s)) \<and>
   (Order_ID (Orders s order) \<noteq> [] \<and> ordersByID (m s) (Order_ID (Orders s order)) \<noteq> None \<longrightarrow>
      AddOrder order s = (Inl (OrderExists (Order_ID (Orders s order))), s)) \<and>
   (Order_ID (Orders s order) \<noteq> [] \<and> ordersByID (m s) (Order_ID (Orders s order)) = None \<longrightarrow>
      (\<exists>n. fst (AddOrder order s) = Inr n)) \<and>
   (fst (AddOrder order s) = Inr n \<longrightarrow>
      Orders (snd (AddOrder order s)) = Orders s \<and>
      ordersByID (m (snd (AddOrder order s))) (Order_ID (Orders s order)) = Some order \<and>
      ordersByAccountID (m (snd (AddOrder order s))) (Order_AccountID (Orders s order)) =
        Some ((case ordersByAccountID (m s) (Order_AccountID (Orders s order)) of
                 None \<Rightarrow> [] | Some ordersOfAccount \<Rightarrow> ordersOfAccount) @ [order]) \<and>
      (\<forall>st. GetStatus lib (Orders s order) = Inr st \<longrightarrow>
         fst (GetOrderByID lib (Order_ID (Orders s order)) (snd (AddOrder order s))) =
           Inr (Some order)) \<and>
      (\<forall>err. GetStatus lib (Orders s order) = Inl err \<longrightarrow>
         fst (GetOrderByID lib (Order_ID (Orders s order)) (snd (AddOrder order s))) =
           Inl (StatusPanic err)) \<and>
      (\<forall>r. fst (GetOrdersByAccountID lib (Order_AccountID (Orders s order))
                 (snd (AddOrder order s))) = Inr r \<longrightarrow>
         (\<exists>orders. r = Some orders \<and> order \<in> set orders)) \<and>
      (\<forall>orders. ordersByAccountID (m (snd (AddOrder order s))) (Order_AccountID (Orders s order)) =
           Some orders \<and> distinct orders \<and>
           (\<forall>p \<in> set orders. \<exists>st. GetStatus lib (Orders s p) = Inr st) \<longrightarrow>
         fst (GetOrdersByAccountID lib (Order_AccountID (Orders s order))
                (snd (AddOrder order s))) = Inr (Some orders)))"
proof (intro conjI impI allI)
  assume ok: "fst (AddOrder order s) = Inr n"
  let ?s' = "snd (AddOrder order s)"
  let ?prev = "case ordersByAccountID (m s) (Order_AccountID (Orders s order)) of
                 None \<Rightarrow> [] | Some ordersOfAccount \<Rightarrow> ordersOfAccount"
  from ok have s': "?s' = s\<lparr>m := (m s)\<lparr>ordersByAccountID :=
                         (ordersByAccountID (m s))
                           (Order_AccountID (Orders s order) \<mapsto> ?prev @ [order]),
                       ordersByID := (ordersByID (m s))(Order_ID (Orders s order) \<mapsto> order)\<rparr>\<rparr>"
    by (auto simp: AddOrder_def Let_def split: if_splits)
  show heap: "Orders ?s' = Orders s" by (simp add: s')
  show byID: "ordersByID (m ?s') (Order_ID (Orders s order)) = Some order" by (simp add: s')
  show byAcct: "ordersByAccountID (m ?s') (Order_AccountID (Orders s order)) = Some (?prev @ [order])"
    by (simp add: s')
  {
    fix st assume "GetStatus lib (Orders s order) = Inr st"
    with byID heap show "fst (GetOrderByID lib (Order_ID (Orders s order)) ?s') = Inr (Some order)"
      by (simp add: GetOrderByID_def)
  }
  {
    fix err assume "GetStatus lib (Orders s order) = Inl err"
    with byID heap show "fst (GetOrderByID lib (Order_ID (Orders s order)) ?s') = Inl (StatusPanic err)"
      by (simp add: GetOrderByID_def)
  }
  {
    fix r assume "fst (GetOrdersByAccountID lib (Order_AccountID (Orders s order)) ?s') = Inr r"
    moreover have "GetOrdersByAccountID lib (Order_AccountID (Orders s order)) ?s' =
        (case refreshStatuses lib (?prev @ [order]) [] ?s' of
           (Inl f, s'') \<Rightarrow> (Inl f, s'')
         | (Inr _, s'') \<Rightarrow> (Inr (Some (?prev @ [order])), s''))"
      by (simp only: GetOrdersByAccountID_def byAcct option.case)
    ultimately have "r = Some (?prev @ [order])"
      by (auto split: sum.splits prod.splits)
    then show "\<exists>orders. r = Some orders \<and> order \<in> set orders" by simp
  }
  {
    fix orders
    assume a: "ordersByAccountID (m ?s') (Order_AccountID (Orders s order)) = Some orders \<and>
       distinct orders \<and> (\<forall>p \<in> set orders. \<exists>st. GetStatus lib (Orders s p) = Inr st)"
    then have "\<forall>p \<in> set orders. \<exists>st. GetStatus lib (Orders ?s' p) = Inr st"
      using heap by simp
    with a obtain s'' where "refreshStatuses lib orders [] ?s' = (Inr (), s'')"
      using refreshStatuses_returns[of orders "[]" lib ?s'] by auto
    with a show "fst (GetOrdersByAccountID lib (Order_AccountID (Orders s order)) ?s') =
        Inr (Some orders)"
      by (simp add: GetOrdersByAccountID_def)
  }
qed (simp_all add: AddOrder_def Let_def)

lemma status_examples:
  "GetStatus exampleLibrary (Orders exampleState 2) = Inr ''pending''"
  "GetStatus exampleLibrary (Orders exampleState 3) = Inr ''pending''"
  "GetStatus exampleLibrary (Orders exampleState 5) = Inl ''order is in an invalid state''"
  by (simp_all add: exampleLibrary_def exampleState_def)

lemma AddOrder_example: "AddOrder 2 exampleState = (Inr 1, withOrder 2)"
  by (simp add: AddOrder_def Let_def withOrder_def example_defs)

lemma AddOrder_example_second: "AddOrder 3 (withOrder 2) = (Inr 2, withOrders 2 3)"
  by (simp add: AddOrder_def Let_def withOrder_def withOrders_def example_defs)

lemma AddOrder_example_failing_status: "AddOrder 5 exampleState = (Inr 1, withOrder 5)"
  by (simp add: AddOrder_def Let_def withOrder_def example_defs)

theorem AddOrder_indices_witness:
  "AddOrder 16 exampleState = (Inl OrderEmptyID, exampleState) \<and>
   AddOrder 2 exampleState = (Inr 1, withOrder 2) \<and>
   AddOrder 2 (withOrder 2) = (Inl (OrderExists ''2''), withOrder 2) \<and>
   AddOrder 3 (withOrder 2) = (Inr 2, withOrders 2 3) \<and>
   ordersByID (m (withOrders 2 3)) ''3'' = Some 3 \<and>
   ordersByAccountID (m (withOrders 2 3)) ''acct'' = Some [2, 3] \<and>
   fst (GetOrderByID exampleLibrary ''3'' (withOrders 2 3)) = Inr (Some 3) \<and>
   fst (GetOrdersByAccountID exampleLibrary ''acct'' (withOrders 2 3)) = Inr (Some [2, 3]) \<and>
   fst (GetOrderByID exampleLibrary ''5'' (withOrder 5)) =
     Inl (StatusPanic ''order is in an invalid state'')"
proof -
  have ids: "Order_ID (Orders exampleState 16) = []"
    "Order_ID (Orders (withOrder 2) 2) = ''2''"
    "ordersByID (m (withOrder 2)) ''2'' \<noteq> None"
    by (simp_all add: withOrder_def example_defs)
  have empty: "AddOrder 16 exampleState = (Inl OrderEmptyID, exampleState)"
    using AddOrder_indices[where s = exampleState and order = 16] ids by simp
  have again: "AddOrder 2 (withOrder 2) = (Inl (OrderExists ''2''), withOrder 2)"
    using AddOrder_indices[where s = "withOrder 2" and order = 2] ids by simp
  have ok: "fst (AddOrder 3 (withOrder 2)) = Inr 2"
    and s': "snd (AddOrder 3 (withOrder 2)) = withOrders 2 3"
    by (simp_all add: AddOrder_example_second)
  have o2: "Order_ID (Orders (withOrder 2) 3) = ''3''"
    "Order_AccountID (Orders (withOrder 2) 3) = ''acct''"
    "ordersByAccountID (m (withOrder 2)) ''acct'' = Some [2]"
    "GetStatus exampleLibrary (Orders (withOrder 2) 3) = Inr ''pending''"
    "GetStatus exampleLibrary (Orders (withOrder 2) 2) = Inr ''pending''"
    by (simp_all add: withOrder_def exampleState_def exampleLibrary_def NewMemoryStore_def hextable_def)
  note second = AddOrder_indices[where s = "withOrder 2" and order = 3 and n = 2
      and lib = exampleLibrary, THEN conjunct2, THEN conjunct2, THEN conjunct2, THEN mp, OF ok,
      unfolded s' o2 option.case append.simps]
  from second have byID: "ordersByID (m (withOrders 2 3)) ''3'' = Some 3"
    and byAcct: "ordersByAccountID (m (withOrders 2 3)) ''acct'' = Some [2, 3]"
    by blast+
  from second have get: "fst (GetOrderByID exampleLibrary ''3'' (withOrders 2 3)) = Inr (Some 3)"
    by blast
  have "distinct [2, 3 :: nat] \<and>
      (\<forall>p \<in> set [2, 3]. \<exists>st. GetStatus exampleLibrary (Orders (withOrder 2) p) = Inr st)"
    using o2 by simp
  with second byAcct
  have getAll: "fst (GetOrdersByAccountID exampleLibrary ''acct'' (withOrders 2 3)) = Inr (Some [2, 3])"
    by blast
  have ok5: "fst (AddOrder 5 exampleState) = Inr 1"
    and s5: "snd (AddOrder 5 exampleState) = withOrder 5"
    by (simp_all add: AddOrder_example_failing_status)
  have o5: "Order_ID (Orders exampleState 5) = ''5''"
    "GetStatus exampleLibrary (Orders exampleState 5) = Inl ''order is in an invalid state''"
    by (simp_all add: exampleState_def exampleLibrary_def hextable_def)
  note failing = AddOrder_indices[where s = exampleState and order = 5 and n = 1
      and lib = exampleLibrary, THEN conjunct2, THEN conjunct2, THEN conjunct2, THEN mp, OF ok5,
      unfolded s5 o5]
  from failing
  have panic: "fst (GetOrderByID exampleLibrary ''5'' (withOrder 5)) =
     Inl (StatusPanic ''order is in an invalid state'')"
    by blast
  from empty AddOrder_example again AddOrder_example_second byID byAcct get getAll panic
  show ?thesis by blast
qed

text \<open>
  C7 as claimed says that \<^verbatim>\<open>GetOrderByID(o.ID)\<close> returns \<open>o\<close> after every successful
  \<^verbatim>\<open>AddOrder(o)\<close>. Order 5 is added; its status computation fails, and the read panics.
\<close>

theorem AddOrder_then_GetOrderByID_counterexample:
  "AddOrder 5 exampleState = (Inr 1, withOrder 5) \<and>
   Order_ID (Orders exampleState 5) = ''5'' \<and>
   GetOrderByID exampleLibrary ''5'' (withOrder 5) =
     (Inl (StatusPanic ''order is in an invalid state''), withOrder 5)"
  by (simp add: AddOrder_def Let_def GetOrderByID_def withOrder_def example_defs)

text \<open>
  C8. An order returned by \<^verbatim>\<open>GetOrderByID\<close> or in the list returned by
  \<^verbatim>\<open>GetOrdersByAccountID\<close> has, after the call, the status that \<^verbatim>\<open>GetStatus\<close>
  computed from the order as it was before the call, and is otherwise unchanged. When
  the status computation of the order looked up fails, \<^verbatim>\<open>GetOrderByID\<close> panics with
  that error and changes nothing; when it fails for an order of the account,
  \<^verbatim>\<open>GetOrdersByAccountID\<close> returns no list (it panics, the orders being pairwise
  distinct).
\<close>

theorem status_recomputed_on_read:
  "(fst (GetOrderByID lib id' s) = Inr (Some order) \<longrightarrow>
      ordersByID (m s) id' = Some order \<and>
      (\<exists>st. GetStatus lib (Orders s order) = Inr st \<and>
            Orders (snd (GetOrderByID lib id' s)) order = (Orders s order)\<lparr>Order_Status := st\<rparr>)) \<and>
   (ordersByID (m s) id' = Some order \<and> GetStatus lib (Orders s order) = Inl err \<longrightarrow>
      GetOrderByID lib id' s = (Inl (StatusPanic err), s)) \<and>
   (fst (GetOrdersByAccountID lib accountID s) = Inr (Some orders) \<longrightarrow>
      ordersByAccountID (m s) accountID = Some orders \<and>
      (\<forall>order \<in> set orders.
         \<exists>st. GetStatus lib (Orders s order) = Inr st \<and>
              Orders (snd (GetOrdersByAccountID lib accountID s)) order =
                (Orders s order)\<lparr>Order_Status := st\<rparr>)) \<and>
   (ordersByAccountID (m s) accountID = Some orders \<and>
    (\<exists>order \<in> set orders. \<exists>err. GetStatus lib (Orders s order) = Inl err) \<longrightarrow>
      (\<exists>f. fst (GetOrdersByAccountID lib accountID s) = Inl f) \<and>
      (distinct orders \<longrightarrow>
         (\<exists>err. fst (GetOrdersByAccountID lib accountID s) = Inl (StatusPanic err))))"
proof (intro conjI impI)
  assume "fst (GetOrderByID lib id' s) = Inr (Some order)"
  then show "ordersByID (m s) id' = Some order"
    and "\<exists>st. GetStatus lib (Orders s order) = Inr st \<and>
            Orders (snd (GetOrderByID lib id' s)) order = (Orders s order)\<lparr>Order_Status := st\<rparr>"
    by (auto simp: GetOrderByID_def split: option.splits sum.splits)
next
  assume "ordersByID (m s) id' = Some order \<and> GetStatus lib (Orders s order) = Inl err"
  then show "GetOrderByID lib id' s = (Inl (StatusPanic err), s)"
    by (simp add: GetOrderByID_def)
next
  assume ret: "fst (GetOrdersByAccountID lib accountID s) = Inr (Some orders)"
  then show idx: "ordersByAccountID (m s) accountID = Some orders"
    by (auto simp: GetOrdersByAccountID_def split: option.splits sum.splits prod.splits)
  with ret obtain u s' where run: "refreshStatuses lib orders [] s = (Inr u, s')"
    and s': "snd (GetOrdersByAccountID lib accountID s) = s'"
    by (auto simp: GetOrdersByAccountID_def split: sum.splits prod.splits)
  from refreshStatuses_returned[OF run] s'
  show "\<forall>order \<in> set orders.
         \<exists>st. GetStatus lib (Orders s order) = Inr st \<and>
              Orders (snd (GetOrdersByAccountID lib accountID s)) order =
                (Orders s order)\<lparr>Order_Status := st\<rparr>"
    by simp
next
  assume a: "ordersByAccountID (m s) accountID = Some orders \<and>
    (\<exists>order \<in> set orders. \<exists>err. GetStatus lib (Orders s order) = Inl err)"
  show "\<exists>f. fst (GetOrdersByAccountID lib accountID s) = Inl f"
  proof (cases "refreshStatuses lib orders [] s")
    case (Pair r s')
    show ?thesis
    proof (cases r)
      case (Inl f)
      with Pair a show ?thesis by (simp add: GetOrdersByAccountID_def)
    next
      case (Inr u)
      with Pair have "refreshStatuses lib orders [] s = (Inr u, s')" by simp
      from refreshStatuses_returned[OF this] a show ?thesis by fastforce
    qed
  qed
next
  assume a: "ordersByAccountID (m s) accountID = Some orders \<and>
    (\<exists>order \<in> set orders. \<exists>err. GetStatus lib (Orders s order) = Inl err)"
    and d: "distinct orders"
  from a have "\<exists>p \<in> set orders. \<exists>err. GetStatus lib (Orders s p) = Inl err" by simp
  from refreshStatuses_panics[OF d _ this, of "[]"] obtain err s' where
    "refreshStatuses lib orders [] s = (Inl (StatusPanic err), s')" by auto
  with a show "\<exists>err. fst (GetOrdersByAccountID lib accountID s) = Inl (StatusPanic err)"
    by (simp add: GetOrdersByAccountID_def)
qed

theorem status_recomputed_on_read_witness:
  "fst (GetOrderByID exampleLibrary ''3'' (withOrders 2 3)) = Inr (Some 3) \<and>
   Orders (snd (GetOrderByID exampleLibrary ''3'' (withOrders 2 3))) 3 =
     (Orders (withOrders 2 3) 3)\<lparr>Order_Status := ''pending''\<rparr> \<and>
   GetOrderByID exampleLibrary ''5'' (withOrder 5) =
     (Inl (StatusPanic ''order is in an invalid state''), withOrder 5) \<and>
   fst (GetOrdersByAccountID exampleLibrary ''acct'' (withOrders 2 3)) = Inr (Some [2, 3]) \<and>
   Orders (snd (GetOrdersByAccountID exampleLibrary ''acct'' (withOrders 2 3))) 2 =
     (Orders (withOrders 2 3) 2)\<lparr>Order_Status := ''pending''\<rparr> \<and>
   Orders (snd (GetOrdersByAccountID exampleLibrary ''acct'' (withOrders 2 3))) 3 =
     (Orders (withOrders 2 3) 3)\<lparr>Order_Status := ''pending''\<rparr> \<and>
   fst (GetOrdersByAccountID exampleLibrary ''acct'' (withOrders 2 5)) =
     Inl (StatusPanic ''order is in an invalid state'')"
proof -
  have st: "GetStatus exampleLibrary (Orders (withOrders 2 3) 2) = Inr ''pending''"
    "GetStatus exampleLibrary (Orders (withOrders 2 3) 3) = Inr ''pending''"
    "GetStatus exampleLibrary (Orders (withOrder 5) 5) = Inl ''order is in an invalid state''"
    "GetStatus exampleLibrary (Orders (withOrders 2 5) 5) = Inl ''order is in an invalid state''"
    by (simp_all add: withOrders_def withOrder_def exampleLibrary_def exampleState_def)
  have idx: "ordersByID (m (withOrder 5)) ''5'' = Some 5"
    "ordersByAccountID (m (withOrders 2 5)) ''acct'' = Some [2, 5]"
    by (simp_all add: withOrders_def withOrder_def example_defs)
  have r1: "fst (GetOrderByID exampleLibrary ''3'' (withOrders 2 3)) = Inr (Some 3)"
    by (simp add: GetOrderByID_def withOrders_def example_defs)
  have r2: "fst (GetOrdersByAccountID exampleLibrary ''acct'' (withOrders 2 3)) = Inr (Some [2, 3])"
    by (simp add: GetOrdersByAccountID_def withOrders_def example_defs)
  note one = status_recomputed_on_read[where lib = exampleLibrary and id' = "''3''"
      and s = "withOrders 2 3" and order = 3 and accountID = "''acct''" and orders = "[2, 3]"]
  from one r1 st have w1: "Orders (snd (GetOrderByID exampleLibrary ''3'' (withOrders 2 3))) 3 =
     (Orders (withOrders 2 3) 3)\<lparr>Order_Status := ''pending''\<rparr>"
    by auto
  from one r2 have "\<forall>order \<in> set [2, 3].
         \<exists>st. GetStatus exampleLibrary (Orders (withOrders 2 3) order) = Inr st \<and>
              Orders (snd (GetOrdersByAccountID exampleLibrary ''acct'' (withOrders 2 3))) order =
                (Orders (withOrders 2 3) order)\<lparr>Order_Status := st\<rparr>"
    by blast
  with st have w2: "Orders (snd (GetOrdersByAccountID exampleLibrary ''acct'' (withOrders 2 3))) 2 =
     (Orders (withOrders 2 3) 2)\<lparr>Order_Status := ''pending''\<rparr>"
    and w3: "Orders (snd (GetOrdersByAccountID exampleLibrary ''acct'' (withOrders 2 3))) 3 =
     (Orders (withOrders 2 3) 3)\<lparr>Order_Status := ''pending''\<rparr>"
    by auto
  note two = status_recomputed_on_read[where lib = exampleLibrary and id' = "''5''"
      and s = "withOrder 5" and order = 5 and err = "''order is in an invalid state''"]
  from two idx st have w4: "GetOrderByID exampleLibrary ''5'' (withOrder 5) =
     (Inl (StatusPanic ''order is in an invalid state''), withOrder 5)"
    by blast
  note three = status_recomputed_on_read[where lib = exampleLibrary
      and s = "withOrders 2 5" and accountID = "''acct''" and orders = "[2, 5]"]
  have ex: "\<exists>order \<in> set [2, 5 :: nat]. \<exists>err.
      GetStatus exampleLibrary (Orders (withOrders 2 5) order) = Inl err"
    using st by simp
  have d: "distinct [2, 5 :: nat]" by simp
  from three[THEN conjunct2, THEN conjunct2, THEN conjunct2, THEN mp, OF conjI[OF idx(2) ex],
      THEN conjunct2, THEN mp, OF d]
  have "\<exists>err. fst (GetOrdersByAccountID exampleLibrary ''acct'' (withOrders 2 5)) =
      Inl (StatusPanic err)" .
  moreover have "\<forall>err. fst (GetOrdersByAccountID exampleLibrary ''acct'' (withOrders 2 5)) =
      Inl (StatusPanic err) \<longrightarrow> err = ''order is in an invalid state''"
    by (simp add: GetOrdersByAccountID_def withOrders_def example_defs)
  ultimately have w5: "fst (GetOrdersByAccountID exampleLibrary ''acct'' (withOrders 2 5)) =
     Inl (StatusPanic ''order is in an invalid state'')"
    by auto
  from r1 w1 w4 r2 w2 w3 w5 show ?thesis by blast
qed

text \<open>
  C10. \<^verbatim>\<open>AddOrderByIssuedSerial(o)\<close> fails only when \<open>o\<close> has no certificate. For an
  order with a certificate it succeeds whatever the index holds, also when another order
  is indexed under the ID of that certificate: the entry is overwritten. Afterwards
  \<^verbatim>\<open>GetOrderByIssuedSerial\<close> of that ID returns \<open>o\<close>, and any other order is returned
  for no serial but those, different from this ID, that returned it before.
\<close>

theorem AddOrderByIssuedSerial_replaces:
  "(Order_CertificateObject (Orders s order) = None \<longrightarrow>
      AddOrderByIssuedSerial order s = (Inl OrderNoCertificate, s)) \<and>
   (Order_CertificateObject (Orders s order) = Some cert \<longrightarrow>
      AddOrderByIssuedSerial order s =
        (Inr (),
         s\<lparr>m := (m s)\<lparr>ordersByIssuedSerial :=
              (ordersByIssuedSerial (m s))(Certificate_ID (Certificates s cert) \<mapsto> order)\<rparr>\<rparr>) \<and>
      GetOrderByIssuedSerial (Certificate_ID (Certificates s cert))
        (snd (AddOrderByIssuedSerial order s)) = Inr order \<and>
      (\<forall>serial earlier.
         earlier \<noteq> order \<and>
         GetOrderByIssuedSerial serial (snd (AddOrderByIssuedSerial order s)) = Inr earlier \<longrightarrow>
           serial \<noteq> Certificate_ID (Certificates s cert) \<and>
           GetOrderByIssuedSerial serial s = Inr earlier))"
  by (auto simp: AddOrderByIssuedSerial_def GetOrderByIssuedSerial_def
      split: option.splits if_splits)

theorem AddOrderByIssuedSerial_replaces_witness:
  "AddOrderByIssuedSerial 2 exampleState = (Inl OrderNoCertificate, exampleState) \<and>
   AddOrderByIssuedSerial 5 exampleState = (Inr (), withSerial) \<and>
   GetOrderByIssuedSerial ''1'' withSerial = Inr 5 \<and>
   fst (AddOrderByIssuedSerial 9 withSerial) = Inr () \<and>
   GetOrderByIssuedSerial ''1'' (snd (AddOrderByIssuedSerial 9 withSerial)) = Inr 9"
proof -
  have none: "Order_CertificateObject (Orders exampleState 2) = None"
    by (simp add: example_defs)
  have cert: "Order_CertificateObject (Orders withSerial 9) = Some 1"
    by (simp add: withSerial_def example_defs)
  have serial: "Certificate_ID (Certificates withSerial 1) = ''1''"
    by (simp add: withSerial_def example_defs)
  have before: "AddOrderByIssuedSerial 5 exampleState = (Inr (), withSerial)"
    "GetOrderByIssuedSerial ''1'' withSerial = Inr 5"
    by (simp_all add: AddOrderByIssuedSerial_def GetOrderByIssuedSerial_def withSerial_def
        example_defs)
  from AddOrderByIssuedSerial_replaces[where s = exampleState and order = 2,
      THEN conjunct1, THEN mp, OF none]
  have refused: "AddOrderByIssuedSerial 2 exampleState = (Inl OrderNoCertificate, exampleState)" .
  note replaced = AddOrderByIssuedSerial_replaces[where s = withSerial and order = 9 and cert = 1,
      THEN conjunct2, THEN mp, OF cert, unfolded serial]
  from replaced have "fst (AddOrderByIssuedSerial 9 withSerial) = Inr ()" by simp
  moreover from replaced
  have "GetOrderByIssuedSerial ''1'' (snd (AddOrderByIssuedSerial 9 withSerial)) = Inr 9"
    by blast
  ultimately show ?thesis using refused before by blast
qed

end
